theory Spec2Isabelle
  imports Main
begin

text \<open>
  The loaders and validators of a clinical database: \<open>enhanced_data_loader.py\<close>
  (cleaning of CSV extracts against the schema of the store, batched writes with
  retries, a count check and an integrity pass), \<open>simple_enhanced_loader.py\<close>
  (one import method per table, batched writes without retries) and the referential
  integrity check of \<open>comprehensive_validator.py\<close>. pandas and the store are outside
  the program: their answers are parameters of the model, and the calls made to the store
  are kept in a trace.
\<close>

section \<open>Strings\<close>

text \<open>
  Python's \<open>str.upper\<close> and \<open>str.lower\<close>, on the ASCII letters that CSV headers and
  SQL type names are made of, and the substring test \<open>needle in hay\<close>.
\<close>

definition upper_char :: "char \<Rightarrow> char" where
  "upper_char c =
     (let n = (of_char c :: nat) in if 97 \<le> n \<and> n \<le> 122 then char_of (n - 32) else c)"

definition lower_char :: "char \<Rightarrow> char" where
  "lower_char c =
     (let n = (of_char c :: nat) in if 65 \<le> n \<and> n \<le> 90 then char_of (n + 32) else c)"

definition upper :: "string \<Rightarrow> string" where
  "upper s = map upper_char s"

definition lower :: "string \<Rightarrow> string" where
  "lower s = map lower_char s"

fun starts_with :: "string \<Rightarrow> string \<Rightarrow> bool" where
  "starts_with [] hay = True"
| "starts_with (n # ns) [] = False"
| "starts_with (n # ns) (h # hs) = (n = h \<and> starts_with ns hs)"

fun contains :: "string \<Rightarrow> string \<Rightarrow> bool" where
  "contains needle [] = (needle = [])"
| "contains needle (h # hs) = (starts_with needle (h # hs) \<or> contains needle hs)"

section \<open>Data frames\<close>

text \<open>
  A pandas \<open>DataFrame\<close> is a list of column names and a list of rows, each row a list of
  cells in column order. A cell is \<open>None\<close> for a missing value (\<open>None\<close>, \<open>NaN\<close>,
  \<open>NaT\<close>) and \<open>Some v\<close> otherwise. The value type \<open>'v\<close> and the parsers of the
  library are parameters: \<open>to_datetime\<close> and \<open>to_numeric\<close> are called with
  \<open>errors='coerce'\<close>, so they answer \<open>None\<close> (a missing value) where they cannot
  parse; \<open>astype('boolean')\<close> raises instead, which is \<open>None\<close> of \<open>as_boolean\<close>.
\<close>

type_synonym 'v cell = "'v option"

record 'v dataframe =
  columns :: "string list"
  rows :: "'v cell list list"

record 'v pandas =
  is_inf :: "'v \<Rightarrow> bool"
  to_datetime :: "'v \<Rightarrow> 'v option"
  dt_date :: "'v \<Rightarrow> 'v"
  to_numeric :: "'v \<Rightarrow> 'v option"
  as_boolean :: "'v \<Rightarrow> 'v option"

text \<open>\<open>len(df)\<close>.\<close>

definition len :: "'v dataframe \<Rightarrow> nat" where
  "len df = length (rows df)"

text \<open>The cell of a row in the (first) column of a given name; missing when there is none.\<close>

fun cell_of :: "string \<Rightarrow> string list \<Rightarrow> 'v cell list \<Rightarrow> 'v cell" where
  "cell_of c (n # ns) (x # xs) = (if n = c then x else cell_of c ns xs)"
| "cell_of c ns xs = None"

text \<open>Apply a function to the cells of one column of a row.\<close>

fun on_column :: "string \<Rightarrow> ('v cell \<Rightarrow> 'v cell) \<Rightarrow> string list \<Rightarrow> 'v cell list \<Rightarrow> 'v cell list" where
  "on_column c f (n # ns) (x # xs) = (if n = c then f x else x) # on_column c f ns xs"
| "on_column c f ns xs = xs"

text \<open>\<open>df[c] = f(df[c])\<close> for a cell-wise \<open>f\<close>.\<close>

definition assign_column :: "string \<Rightarrow> ('v cell \<Rightarrow> 'v cell) \<Rightarrow> 'v dataframe \<Rightarrow> 'v dataframe" where
  "assign_column c f df = df\<lparr>rows := map (on_column c f (columns df)) (rows df)\<rparr>"

text \<open>\<open>df.dropna(subset=[c])\<close>.\<close>

definition dropna :: "string \<Rightarrow> 'v dataframe \<Rightarrow> 'v dataframe" where
  "dropna c df = df\<lparr>rows := filter (\<lambda>r. cell_of c (columns df) r \<noteq> None) (rows df)\<rparr>"

text \<open>\<open>df.rename(columns=mapping)\<close>: a name that is no key of the mapping is kept.\<close>

definition rename :: "(string \<times> string) list \<Rightarrow> 'v dataframe \<Rightarrow> 'v dataframe" where
  "rename mapping df =
     df\<lparr>columns := map (\<lambda>c. case map_of mapping c of Some t \<Rightarrow> t | None \<Rightarrow> c) (columns df)\<rparr>"

text \<open>
  \<open>df.replace([np.inf, -np.inf], None)\<close> followed by \<open>df.where(pd.notnull(df), None)\<close>:
  infinite values become missing, missing values stay missing.
\<close>

definition handle_missing :: "'v pandas \<Rightarrow> 'v dataframe \<Rightarrow> 'v dataframe" where
  "handle_missing pd df =
     df\<lparr>rows := map (map (\<lambda>x. case x of None \<Rightarrow> None
                                   | Some v \<Rightarrow> if is_inf pd v then None else Some v)) (rows df)\<rparr>"

section \<open>The loader's configuration (EnhancedDataLoader.__init__)\<close>

text \<open>The order in which \<open>load_all_tables\<close> walks the tables.\<close>

definition loading_order :: "string list" where
  "loading_order =
     [''organizations'', ''payers'', ''patients'', ''providers'', ''encounters'',
      ''conditions'', ''medications'', ''procedures'', ''observations'',
      ''immunizations'', ''allergies'', ''care_plans'']"

definition column_mappings :: "(string \<times> (string \<times> string) list) list" where
  "column_mappings =
     [(''patients'',
        [(''ID'', ''id''), (''BIRTHDATE'', ''birth_date''), (''DEATHDATE'', ''death_date''),
         (''SSN'', ''ssn''), (''DRIVERS'', ''drivers''), (''PASSPORT'', ''passport''),
         (''PREFIX'', ''prefix''), (''FIRST'', ''first_name''), (''MIDDLE'', ''middle_name''),
         (''LAST'', ''last_name''), (''SUFFIX'', ''suffix''), (''MAIDEN'', ''maiden_name''),
         (''MARITAL'', ''marital_status''), (''RACE'', ''race''), (''ETHNICITY'', ''ethnicity''),
         (''GENDER'', ''gender''), (''BIRTHPLACE'', ''birth_place''), (''ADDRESS'', ''address''),
         (''CITY'', ''city''), (''STATE'', ''state''), (''COUNTY'', ''county''),
         (''FIPS'', ''fips''), (''ZIP'', ''zip''), (''LAT'', ''latitude''),
         (''LON'', ''longitude''), (''HEALTHCARE_EXPENSES'', ''healthcare_expenses''),
         (''HEALTHCARE_COVERAGE'', ''healthcare_coverage''), (''INCOME'', ''income'')]),
      (''organizations'',
        [(''ID'', ''id''), (''NAME'', ''name''), (''ADDRESS'', ''address''), (''CITY'', ''city''),
         (''STATE'', ''state''), (''ZIP'', ''zip''), (''LAT'', ''latitude''),
         (''LON'', ''longitude''), (''PHONE'', ''phone''), (''REVENUE'', ''revenue''),
         (''UTILIZATION'', ''utilization'')]),
      (''providers'',
        [(''ID'', ''id''), (''ORGANIZATION'', ''organization_id''), (''NAME'', ''name''),
         (''GENDER'', ''gender''), (''SPECIALITY'', ''speciality''), (''ADDRESS'', ''address''),
         (''CITY'', ''city''), (''STATE'', ''state''), (''ZIP'', ''zip''),
         (''LAT'', ''latitude''), (''LON'', ''longitude''), (''ENCOUNTERS'', ''utilization'')]),
      (''payers'',
        [(''ID'', ''id''), (''NAME'', ''name''), (''OWNERSHIP'', ''ownership''),
         (''ADDRESS'', ''address''), (''CITY'', ''city''), (''STATE'', ''state''),
         (''ZIP'', ''zip''), (''PHONE'', ''phone''), (''AMOUNT_COVERED'', ''amount_covered''),
         (''AMOUNT_UNCOVERED'', ''amount_uncovered''), (''REVENUE'', ''revenue''),
         (''COVERED_ENCOUNTERS'', ''covered_encounters''),
         (''UNCOVERED_ENCOUNTERS'', ''uncovered_encounters''),
         (''COVERED_MEDICATIONS'', ''covered_medications''),
         (''UNCOVERED_MEDICATIONS'', ''uncovered_medications''),
         (''COVERED_PROCEDURES'', ''covered_procedures''),
         (''UNCOVERED_PROCEDURES'', ''uncovered_procedures''),
         (''COVERED_IMMUNIZATIONS'', ''covered_immunizations''),
         (''UNCOVERED_IMMUNIZATIONS'', ''uncovered_immunizations''),
         (''UNIQUE_CUSTOMERS'', ''unique_customers''), (''QOLS_AVG'', ''qols_avg''),
         (''MEMBER_MONTHS'', ''member_months'')]),
      (''encounters'',
        [(''ID'', ''id''), (''START'', ''start_time''), (''STOP'', ''stop_time''),
         (''PATIENT'', ''patient_id''), (''ORGANIZATION'', ''organization_id''),
         (''PROVIDER'', ''provider_id''), (''PAYER'', ''payer_id''),
         (''ENCOUNTERCLASS'', ''encounter_class''), (''CODE'', ''code''),
         (''DESCRIPTION'', ''description''), (''BASE_ENCOUNTER_COST'', ''base_encounter_cost''),
         (''TOTAL_CLAIM_COST'', ''total_claim_cost''), (''PAYER_COVERAGE'', ''payer_coverage''),
         (''REASONCODE'', ''reason_code''), (''REASONDESCRIPTION'', ''reason_description'')]),
      (''conditions'',
        [(''START'', ''start_date''), (''STOP'', ''stop_date''), (''PATIENT'', ''patient_id''),
         (''ENCOUNTER'', ''encounter_id''), (''SYSTEM'', ''system''), (''CODE'', ''code''),
         (''DESCRIPTION'', ''description'')]),
      (''medications'',
        [(''START'', ''start_date''), (''STOP'', ''stop_date''), (''PATIENT'', ''patient_id''),
         (''PAYER'', ''payer_id''), (''ENCOUNTER'', ''encounter_id''), (''CODE'', ''code''),
         (''DESCRIPTION'', ''description''), (''BASE_COST'', ''base_cost''),
         (''PAYER_COVERAGE'', ''payer_coverage''), (''DISPENSES'', ''dispenses''),
         (''TOTALCOST'', ''total_cost''), (''REASONCODE'', ''reason_code''),
         (''REASONDESCRIPTION'', ''reason_description'')])]"

record config =
  batch_size :: nat
  max_retries :: nat
  retry_delay :: nat


section \<open>Schema lookup (EnhancedDataLoader.get_table_schema)\<close>

text \<open>
  What the inspector of the store answers for a table: the columns with the text of their
  types, in the store's order, and the names of the primary-key columns. The inspector is
  a parameter; \<open>None\<close> is any exception it raises.
  \<open>get_table_schema\<close> catches that exception, logs an error and returns the empty
  dictionary; its callers read the dictionary with \<open>schema.get('columns', {})\<close> and
  \<open>schema.get('primary_keys', [])\<close>, so the empty dictionary is the schema with no
  column and no primary key.
\<close>

record schema =
  schema_columns :: "(string \<times> string) list"
  primary_keys :: "string list"

type_synonym inspector = "string \<Rightarrow> schema option"

datatype log_entry =
    FailedToGetSchema string
  | FailedToConvertColumn string string
  | DroppedNullPrimaryKey nat string

definition empty_schema :: schema where
  "empty_schema = \<lparr>schema_columns = [], primary_keys = []\<rparr>"

definition get_table_schema :: "inspector \<Rightarrow> string \<Rightarrow> schema \<times> log_entry list" where
  "get_table_schema inspect table_name =
     (case inspect table_name of
        Some s \<Rightarrow> (s, [])
      | None \<Rightarrow> (empty_schema, [FailedToGetSchema table_name]))"

section \<open>Cleaning (EnhancedDataLoader.clean_dataframe)\<close>

text \<open>
  The branch of the \<open>if\<close>/\<open>elif\<close> chain that the lower-cased type text selects; the
  order of the tests is the source's.
\<close>

datatype kind = Timestamp | Date | Numeric | Integer | Boolean | Other

definition kind_of :: "string \<Rightarrow> kind" where
  "kind_of col_type =
     (if contains ''timestamp'' col_type \<or> contains ''datetime'' col_type then Timestamp
      else if contains ''date'' col_type then Date
      else if contains ''numeric'' col_type \<or> contains ''decimal'' col_type
              \<or> contains ''float'' col_type then Numeric
      else if contains ''integer'' col_type \<or> contains ''int'' col_type then Integer
      else if contains ''boolean'' col_type \<or> contains ''bool'' col_type then Boolean
      else Other)"

text \<open>A parser with \<open>errors='coerce'\<close>: a missing value stays missing, a failure is missing.\<close>

definition coerce :: "('v \<Rightarrow> 'v option) \<Rightarrow> 'v cell \<Rightarrow> 'v cell" where
  "coerce parse x = (case x of None \<Rightarrow> None | Some v \<Rightarrow> parse v)"

text \<open>
  \<open>astype('boolean')\<close> converts the whole column or raises: it raises when one value
  that is not missing has no boolean reading.
\<close>

definition boolean_castable :: "'v pandas \<Rightarrow> string \<Rightarrow> 'v dataframe \<Rightarrow> bool" where
  "boolean_castable pd c df =
     list_all (\<lambda>r. case cell_of c (columns df) r of
                     None \<Rightarrow> True | Some v \<Rightarrow> as_boolean pd v \<noteq> None) (rows df)"

text \<open>One pass of the body of the conversion loop; \<open>None\<close> is the exception caught there.\<close>

definition convert_column :: "'v pandas \<Rightarrow> string \<Rightarrow> kind \<Rightarrow> 'v dataframe \<Rightarrow> 'v dataframe option" where
  "convert_column pd col_name k df =
     (case k of
        Timestamp \<Rightarrow> Some (assign_column col_name (coerce (to_datetime pd)) df)
      | Date \<Rightarrow> Some (assign_column col_name
                        (\<lambda>x. map_option (dt_date pd) (coerce (to_datetime pd) x)) df)
      | Numeric \<Rightarrow> Some (assign_column col_name (coerce (to_numeric pd)) df)
      | Integer \<Rightarrow> Some (assign_column col_name (coerce (to_numeric pd)) df)
      | Boolean \<Rightarrow>
          (if boolean_castable pd col_name df
           then Some (assign_column col_name (coerce (as_boolean pd)) df)
           else None)
      | Other \<Rightarrow> Some df)"

fun convert_columns ::
  "'v pandas \<Rightarrow> (string \<times> string) list \<Rightarrow> 'v dataframe \<times> log_entry list
     \<Rightarrow> 'v dataframe \<times> log_entry list" where
  "convert_columns pd [] (df, log) = (df, log)"
| "convert_columns pd ((col_name, type_text) # cs) (df, log) =
     (if col_name \<in> set (columns df) then
        (let col_type = lower type_text in
         case convert_column pd col_name (kind_of col_type) df of
           Some df' \<Rightarrow> convert_columns pd cs (df', log)
         | None \<Rightarrow> convert_columns pd cs (df, log @ [FailedToConvertColumn col_name col_type]))
      else convert_columns pd cs (df, log))"

fun drop_null_primary_keys ::
  "string list \<Rightarrow> 'v dataframe \<times> log_entry list \<Rightarrow> 'v dataframe \<times> log_entry list" where
  "drop_null_primary_keys [] (df, log) = (df, log)"
| "drop_null_primary_keys (pk_col # pks) (df, log) =
     (if pk_col \<in> set (columns df) then
        (let initial_count = len df;
             df' = dropna pk_col df;
             dropped_count = initial_count - len df'
         in drop_null_primary_keys pks
              (df', if dropped_count > 0 then log @ [DroppedNullPrimaryKey dropped_count pk_col]
                    else log))
      else drop_null_primary_keys pks (df, log))"

text \<open>The column mapping of \<open>clean_dataframe\<close>: upper-case the header, then rename.\<close>

definition apply_column_mapping :: "string \<Rightarrow> 'v dataframe \<Rightarrow> 'v dataframe" where
  "apply_column_mapping table_name df =
     (case map_of column_mappings table_name of
        Some mapping \<Rightarrow> rename mapping (df\<lparr>columns := map upper (columns df)\<rparr>)
      | None \<Rightarrow> df)"

text \<open>
  \<open>clean_dataframe\<close> returns the cleaned frame; the model returns with it the warnings and
  errors it sends to the logger, in order.
\<close>

definition clean_dataframe ::
  "'v pandas \<Rightarrow> inspector \<Rightarrow> 'v dataframe \<Rightarrow> string \<Rightarrow> 'v dataframe \<times> log_entry list" where
  "clean_dataframe pd inspect df table_name =
     (let df1 = handle_missing pd (apply_column_mapping table_name df);
          (schema, log0) = get_table_schema inspect table_name;
          converted = convert_columns pd (schema_columns schema) (df1, log0)
      in drop_null_primary_keys (primary_keys schema) converted)"

section \<open>The target relation and its failures\<close>

text \<open>
  The store is outside the program. Of the relation being loaded the model keeps the rows
  this session has committed, and a trace of the calls made to the store. What the store
  answers is a parameter:
  \<^item> \<open>truncate_ok\<close>: the \<open>TRUNCATE TABLE ... CASCADE\<close> statement and its commit succeed;
  \<^item> \<open>write_ok n a\<close>: the \<open>to_sql\<close> call of batch number \<open>n\<close> (counted from one, as in
    the log messages) succeeds when it is made at attempt index \<open>a\<close> (counted from zero,
    the loop variable \<open>attempt\<close>); the call runs in one transaction, so a failed call
    leaves no row behind;
  \<^item> \<open>count_reply rs\<close>: the answer to \<open>SELECT COUNT(*)\<close> when this session has committed
    the rows \<open>rs\<close>; \<open>None\<close> is an exception. A store nobody else writes to answers
    \<open>Some (length rs)\<close>.
\<close>

record 'r store_env =
  truncate_ok :: bool
  write_ok :: "nat \<Rightarrow> nat \<Rightarrow> bool"
  count_reply :: "'r list \<Rightarrow> nat option"

datatype event = Truncate | TruncateFailed | Write nat nat | Sleep nat | Count

text \<open>
  The entries of \<open>table_stats['errors']\<close> and \<open>table_stats['warnings']\<close>. The source
  formats them as text; the model keeps the numbers the text is built from:
  \<open>FailedToLoadBatch n m\<close> is "Failed to load batch n after m attempts" and
  \<open>RowCountMismatch e g\<close> is "Row count mismatch: expected e, got g".
\<close>

datatype message =
    CsvDoesNotExist
  | CsvIsEmpty
  | CsvNoDataRows
  | MissingColumns "string list"
  | ErrorValidatingCsv
  | NoDataInCsv
  | NoValidDataAfterCleaning
  | FailedToLoadBatch nat nat
  | RowCountMismatch nat nat
  | UnexpectedError
  | CsvFileNotFound string

text \<open>
  The dictionary \<open>table_stats\<close> of \<open>load_table_with_retry\<close> (without its file name and
  clock readings), together with the relation and the trace.
\<close>

record 'r load_state =
  total_rows_in_csv :: nat
  rows_loaded :: nat
  batches_processed :: nat
  errors :: "message list"
  warnings :: "message list"
  success :: bool
  relation :: "'r list"
  trace :: "event list"

definition initial_state :: "'r list \<Rightarrow> 'r load_state" where
  "initial_state existing =
     \<lparr>total_rows_in_csv = 0, rows_loaded = 0, batches_processed = 0, errors = [],
      warnings = [], success = False, relation = existing, trace = []\<rparr>"

section \<open>Writing one batch (EnhancedDataLoader.load_table_batch)\<close>

text \<open>
  \<open>load_table_batch\<close> catches every exception of \<open>to_sql\<close> and answers
  \<open>(False, 0)\<close>; on success it answers \<open>(True, len(df_batch))\<close>. The attempt index is
  passed only to ask the environment.
\<close>

definition load_table_batch ::
  "'r store_env \<Rightarrow> 'r list \<Rightarrow> nat \<Rightarrow> nat \<Rightarrow> 'r load_state \<Rightarrow> (bool \<times> nat) \<times> 'r load_state" where
  "load_table_batch env df_batch batch_num attempt st =
     (let st' = st\<lparr>trace := trace st @ [Write batch_num attempt]\<rparr>
      in if write_ok env batch_num attempt
         then ((True, length df_batch), st'\<lparr>relation := relation st' @ df_batch\<rparr>)
         else ((False, 0), st'))"

section \<open>The retry loop of a batch (EnhancedDataLoader.load_table_with_retry)\<close>

text \<open>
  \<open>for attempt in range(self.max_retries)\<close>: the loop variable runs from \<open>0\<close> to
  \<open>max_retries - 1\<close>. A success ends the loop (\<open>break\<close>); a failure sleeps and goes on
  when \<open>attempt < max_retries - 1\<close>, and records the error otherwise, after which the range
  is exhausted. The \<open>except\<close> clause around the call is not modelled:
  \<open>load_table_batch\<close> raises nothing.
\<close>

function retry_loop ::
  "config \<Rightarrow> 'r store_env \<Rightarrow> 'r list \<Rightarrow> nat \<Rightarrow> nat \<Rightarrow> 'r load_state \<Rightarrow> 'r load_state" where
  "retry_loop cfg env df_batch batch_num attempt st =
     (if attempt < max_retries cfg then
        (let (res, st') = load_table_batch env df_batch (batch_num + 1) attempt st
         in if fst res then
              st'\<lparr>rows_loaded := rows_loaded st' + snd res,
                  batches_processed := batches_processed st' + 1\<rparr>
            else if attempt < max_retries cfg - 1 then
              retry_loop cfg env df_batch batch_num (attempt + 1)
                (st'\<lparr>trace := trace st' @ [Sleep (retry_delay cfg)]\<rparr>)
            else
              retry_loop cfg env df_batch batch_num (attempt + 1)
                (st'\<lparr>errors := errors st' @ [FailedToLoadBatch (batch_num + 1) (max_retries cfg)]\<rparr>))
      else st)"
  by pat_completeness auto
termination
  by (relation "measure (\<lambda>(cfg, env, df_batch, batch_num, attempt, st). max_retries cfg - attempt)")
     auto

text \<open>\<open>df.iloc[start_idx:end_idx]\<close> on the rows, for indices that are not negative.\<close>

definition iloc :: "'r list \<Rightarrow> nat \<Rightarrow> nat \<Rightarrow> 'r list" where
  "iloc df start_idx end_idx = take (end_idx - start_idx) (drop start_idx df)"

text \<open>\<open>for batch_num in range(total_batches)\<close>, given the list of the range.\<close>

fun batch_loop ::
  "config \<Rightarrow> 'r store_env \<Rightarrow> 'r list \<Rightarrow> nat list \<Rightarrow> 'r load_state \<Rightarrow> 'r load_state" where
  "batch_loop cfg env df_clean [] st = st"
| "batch_loop cfg env df_clean (batch_num # rest) st =
     (let start_idx = batch_num * batch_size cfg;
          end_idx = min ((batch_num + 1) * batch_size cfg) (length df_clean);
          df_batch = iloc df_clean start_idx end_idx
      in batch_loop cfg env df_clean rest (retry_loop cfg env df_batch batch_num 0 st))"

text \<open>
  The verification after the loop: the count of the store replaces \<open>rows_loaded\<close> when
  the two differ, with a warning. An exception of the query is caught by the handler of
  the whole function, which appends an error and leaves \<open>success\<close> false.
\<close>

definition verify_loaded_data :: "'r store_env \<Rightarrow> 'r load_state \<Rightarrow> 'r load_state" where
  "verify_loaded_data env st =
     (let st' = st\<lparr>trace := trace st @ [Count]\<rparr>
      in case count_reply env (relation st') of
           None \<Rightarrow> st'\<lparr>errors := errors st' @ [UnexpectedError]\<rparr>
         | Some actual_count \<Rightarrow>
             (let st'' =
                (if actual_count \<noteq> rows_loaded st'
                 then st'\<lparr>warnings := warnings st' @ [RowCountMismatch (rows_loaded st') actual_count],
                         rows_loaded := actual_count\<rparr>
                 else st')
              in st''\<lparr>success := (errors st'' = [])\<rparr>))"

section \<open>CSV validation (EnhancedDataLoader.validate_csv_file)\<close>

text \<open>What is at the path of the CSV file.\<close>

datatype 'v csv_file = NoFile | ZeroBytes | Unreadable | Parsed "'v dataframe"

definition validate_csv_file :: "'v csv_file \<Rightarrow> string \<Rightarrow> bool \<times> message list" where
  "validate_csv_file csv table_name =
     (case csv of
        NoFile \<Rightarrow> (False, [CsvDoesNotExist])
      | ZeroBytes \<Rightarrow> (False, [CsvIsEmpty])
      | Unreadable \<Rightarrow> (False, [ErrorValidatingCsv])
      | Parsed df \<Rightarrow>
          (if len df = 0 then (False, [CsvNoDataRows])
           else (case map_of column_mappings table_name of
                   None \<Rightarrow> (True, [])
                 | Some mapping \<Rightarrow>
                     (let missing_columns =
                            filter (\<lambda>k. k \<notin> set (map upper (columns df))) (map fst mapping)
                      in (True, if missing_columns \<noteq> [] then [MissingColumns missing_columns]
                                else [])))))"

section \<open>Loading one table (EnhancedDataLoader.load_table_with_retry)\<close>

text \<open>
  The sequence of the source: validate the file, read it, clean it, truncate the relation,
  write the batches, verify the count. An exception anywhere is caught by the handler of
  the function, which appends an error to the statistics gathered so far: this is what
  happens when the truncate fails, and when \<open>batch_size\<close> is zero (a division by zero in
  the number of batches, after the truncate). \<open>existing\<close> is what the relation holds
  before the call.
\<close>

definition load_table_with_retry ::
  "'v pandas \<Rightarrow> inspector \<Rightarrow> config \<Rightarrow> 'v cell list store_env \<Rightarrow> 'v cell list list
     \<Rightarrow> 'v csv_file \<Rightarrow> string \<Rightarrow> 'v cell list load_state" where
  "load_table_with_retry pd inspect cfg env existing csv table_name =
     (let st = initial_state existing;
          (is_valid, issues) = validate_csv_file csv table_name
      in if \<not> is_valid then st\<lparr>errors := errors st @ issues\<rparr>
         else (case csv of
            Parsed df \<Rightarrow>
              (let st1 = st\<lparr>total_rows_in_csv := len df\<rparr>
               in if len df = 0
                  then st1\<lparr>warnings := warnings st1 @ [NoDataInCsv], success := True\<rparr>
                  else
                    (let df_clean = fst (clean_dataframe pd inspect df table_name)
                     in if len df_clean = 0
                        then st1\<lparr>warnings := warnings st1 @ [NoValidDataAfterCleaning],
                                 success := True\<rparr>
                        else if \<not> truncate_ok env
                        then st1\<lparr>trace := trace st1 @ [TruncateFailed],
                                 errors := errors st1 @ [UnexpectedError]\<rparr>
                        else
                          (let st2 = st1\<lparr>relation := [], trace := trace st1 @ [Truncate]\<rparr>
                           in if batch_size cfg = 0
                              then st2\<lparr>errors := errors st2 @ [UnexpectedError]\<rparr>
                              else
                                (let total_batches =
                                       (len df_clean + batch_size cfg - 1) div batch_size cfg
                                 in verify_loaded_data env
                                      (batch_loop cfg env (rows df_clean) [0..<total_batches] st2)))))
          | _ \<Rightarrow> st\<lparr>errors := errors st @ [UnexpectedError]\<rparr>))"

section \<open>Loading all tables (EnhancedDataLoader.load_all_tables)\<close>

text \<open>
  The relationships that \<open>EnhancedDataLoader.validate_referential_integrity\<close> checks:
  child table, child column, parent table, parent column.
\<close>

definition relationships :: "(string \<times> string \<times> string \<times> string) list" where
  "relationships =
     [(''providers'', ''organization_id'', ''organizations'', ''id''),
      (''encounters'', ''patient_id'', ''patients'', ''id''),
      (''encounters'', ''organization_id'', ''organizations'', ''id''),
      (''encounters'', ''provider_id'', ''providers'', ''id''),
      (''encounters'', ''payer_id'', ''payers'', ''id''),
      (''conditions'', ''patient_id'', ''patients'', ''id''),
      (''conditions'', ''encounter_id'', ''encounters'', ''id''),
      (''medications'', ''patient_id'', ''patients'', ''id''),
      (''medications'', ''encounter_id'', ''encounters'', ''id''),
      (''medications'', ''payer_id'', ''payers'', ''id'')]"

text \<open>
  The run over \<open>loading_order\<close>. Per table the environment gives the file, the answers
  of the store and the rows already in the relation. A table whose file does not exist is
  skipped with a warning; every other table is loaded, one after the other, and its
  statistics are stored under its name. \<open>table_stats\<close> is a dictionary, which keeps the order
  of insertion: the order of its keys is the order of the loads. \<open>None\<close> is the early
  return when the connection cannot be validated.
\<close>

record 'v source_env =
  csv_of :: "string \<Rightarrow> 'v csv_file"
  store_of :: "string \<Rightarrow> 'v cell list store_env"
  existing_of :: "string \<Rightarrow> 'v cell list list"

record 'v loading_stats =
  tables_processed :: nat
  total_rows_loaded :: nat
  all_errors :: "message list"
  all_warnings :: "message list"
  table_stats :: "(string \<times> 'v cell list load_state) list"

definition initial_loading_stats :: "'v loading_stats" where
  "initial_loading_stats =
     \<lparr>tables_processed = 0, total_rows_loaded = 0, all_errors = [], all_warnings = [],
      table_stats = []\<rparr>"

fun load_tables ::
  "'v pandas \<Rightarrow> inspector \<Rightarrow> config \<Rightarrow> 'v source_env \<Rightarrow> string list \<Rightarrow> 'v loading_stats
     \<Rightarrow> 'v loading_stats" where
  "load_tables pd inspect cfg src [] ls = ls"
| "load_tables pd inspect cfg src (table_name # rest) ls =
     (if csv_of src table_name = NoFile
      then load_tables pd inspect cfg src rest
             (ls\<lparr>all_warnings := all_warnings ls @ [CsvFileNotFound table_name]\<rparr>)
      else
        (let stats = load_table_with_retry pd inspect cfg (store_of src table_name)
                       (existing_of src table_name) (csv_of src table_name) table_name
         in load_tables pd inspect cfg src rest
              (ls\<lparr>table_stats := table_stats ls @ [(table_name, stats)],
                  tables_processed := tables_processed ls + 1,
                  total_rows_loaded := total_rows_loaded ls + rows_loaded stats,
                  all_errors := all_errors ls @ errors stats,
                  all_warnings := all_warnings ls @ warnings stats\<rparr>)))"

definition load_all_tables ::
  "'v pandas \<Rightarrow> inspector \<Rightarrow> config \<Rightarrow> 'v source_env \<Rightarrow> bool \<Rightarrow> 'v loading_stats option" where
  "load_all_tables pd inspect cfg src connection_valid =
     (if \<not> connection_valid then None
      else Some (load_tables pd inspect cfg src loading_order initial_loading_stats))"

section \<open>The simple loader (simple_enhanced_loader.py)\<close>

text \<open>
  \<open>SimpleEnhancedLoader\<close> has one \<open>import_...\<close> method per table. Each reads the CSV
  file, renames and converts columns, then truncates the relation and writes the frame in
  batches, all inside one \<open>try\<close>. The environment gives, per table:
  \<^item> \<open>prepared\<close>: the rows of the frame when the method reaches the truncate, or
    \<open>None\<close> when an exception is raised before (a missing file, a missing column);
  \<^item> \<open>can_truncate\<close>: the truncate statement succeeds;
  \<^item> \<open>can_write t n\<close>: the \<open>to_sql\<close> call of batch number \<open>n\<close> (from one) succeeds.
\<close>

record 'r simple_env =
  prepared :: "string \<Rightarrow> 'r list option"
  can_truncate :: "string \<Rightarrow> bool"
  can_write :: "string \<Rightarrow> nat \<Rightarrow> bool"

datatype store_call = TruncateTable string | TruncateTableFailed string | ToSql string nat

text \<open>
  The entries of \<open>self.stats['errors']\<close>: \<open>BatchError t n\<close> is "t batch n: ..." and
  \<open>ImportError t\<close> is "t: ...".
\<close>

datatype simple_error = BatchError string nat | ImportError string

record 'r simple_state =
  tables_loaded :: nat
  total_rows :: nat
  stats_errors :: "simple_error list"
  relations :: "string \<Rightarrow> 'r list"
  calls :: "store_call list"


text \<open>
  The batch loop of \<open>load_with_batch_processing\<close>, carrying \<open>loaded_rows\<close>: a batch
  whose write raises is recorded in the errors and the loop goes on with the next one.
\<close>

fun simple_batch_loop ::
  "'r simple_env \<Rightarrow> 'r list \<Rightarrow> string \<Rightarrow> nat \<Rightarrow> nat list \<Rightarrow> nat \<times> 'r simple_state
     \<Rightarrow> nat \<times> 'r simple_state" where
  "simple_batch_loop env df table_name bsize [] (loaded_rows, st) = (loaded_rows, st)"
| "simple_batch_loop env df table_name bsize (batch_num # rest) (loaded_rows, st) =
     (let start_idx = batch_num * bsize;
          end_idx = min ((batch_num + 1) * bsize) (length df);
          batch_df = iloc df start_idx end_idx;
          st' = st\<lparr>calls := calls st @ [ToSql table_name (batch_num + 1)]\<rparr>
      in if can_write env table_name (batch_num + 1)
         then simple_batch_loop env df table_name bsize rest
                (loaded_rows + length batch_df,
                 st'\<lparr>relations := (relations st')(table_name := relations st' table_name @ batch_df)\<rparr>)
         else simple_batch_loop env df table_name bsize rest
                (loaded_rows,
                 st'\<lparr>stats_errors := stats_errors st' @ [BatchError table_name (batch_num + 1)]\<rparr>))"















text \<open>The relationships that \<open>SimpleEnhancedLoader.validate_referential_integrity\<close> checks.\<close>

definition checks :: "(string \<times> string \<times> string \<times> string) list" where
  "checks =
     [(''providers'', ''organization_id'', ''organizations'', ''id''),
      (''encounters'', ''patient_id'', ''patients'', ''id''),
      (''encounters'', ''provider_id'', ''providers'', ''id''),
      (''encounters'', ''organization_id'', ''organizations'', ''id''),
      (''conditions'', ''patient_id'', ''patients'', ''id''),
      (''conditions'', ''encounter_id'', ''encounters'', ''id''),
      (''medications'', ''patient_id'', ''patients'', ''id''),
      (''medications'', ''encounter_id'', ''encounters'', ''id'')]"

section \<open>The order of loads\<close>


section \<open>The store as the validators see it\<close>

text \<open>
  A row of a relation gives a value or SQL's \<open>NULL\<close> (\<open>None\<close>) per column name. A
  database gives the rows of each relation that exists. \<open>execute\<close> is
  \<open>conn.execute(text(...))\<close> followed by \<open>scalar()\<close>: it answers the number the
  statement computes (\<open>None\<close> when the statement raises, as it does on a relation that
  does not exist) and the database afterwards. The statements are those the scripts send:
  the three counts of the validators, and the truncate and insert of the loaders.
\<close>

type_synonym 'v tuple = "string \<Rightarrow> 'v option"

type_synonym 'v database = "string \<Rightarrow> 'v tuple list option"

datatype 'v statement =
    SelectCount string
  | SelectCountNull string string
  | SelectCountOrphans string string string string
  | TruncateCascade string
  | InsertInto string "'v tuple list"

text \<open>SQL's \<open>=\<close> in an \<open>ON\<close> clause holds only between two values that are not \<open>NULL\<close>.\<close>

definition sql_eq :: "'v option \<Rightarrow> 'v option \<Rightarrow> bool" where
  "sql_eq a b = (a \<noteq> None \<and> b \<noteq> None \<and> a = b)"

text \<open>
  \<open>child c LEFT JOIN parent p ON c.child_col = p.parent_col\<close>: a child row is paired with
  each parent row that matches it, and with an all-\<open>NULL\<close> parent (\<open>None\<close>) when none
  does.
\<close>

definition left_join ::
  "'v tuple list \<Rightarrow> 'v tuple list \<Rightarrow> string \<Rightarrow> string \<Rightarrow> ('v tuple \<times> 'v tuple option) list" where
  "left_join cs ps child_col parent_col =
     concat (map (\<lambda>c. let ms = filter (\<lambda>p. sql_eq (c child_col) (p parent_col)) ps
                      in if ms = [] then [(c, None)] else map (\<lambda>p. (c, Some p)) ms) cs)"

text \<open>\<open>WHERE c.child_col IS NOT NULL AND p.parent_col IS NULL\<close>.\<close>

definition orphan_condition :: "string \<Rightarrow> string \<Rightarrow> 'v tuple \<times> 'v tuple option \<Rightarrow> bool" where
  "orphan_condition child_col parent_col cp =
     (fst cp child_col \<noteq> None \<and>
      (case snd cp of None \<Rightarrow> True | Some p \<Rightarrow> p parent_col = None))"

definition execute :: "'v statement \<Rightarrow> 'v database \<Rightarrow> nat option \<times> 'v database" where
  "execute stmt db =
     (case stmt of
        SelectCount t \<Rightarrow> (map_option length (db t), db)
      | SelectCountNull t col \<Rightarrow>
          (map_option (\<lambda>rs. length (filter (\<lambda>r. r col = None) rs)) (db t), db)
      | SelectCountOrphans child_table child_col parent_table parent_col \<Rightarrow>
          (case (db child_table, db parent_table) of
             (Some cs, Some ps) \<Rightarrow>
               (Some (length (filter (orphan_condition child_col parent_col)
                                (left_join cs ps child_col parent_col))), db)
           | _ \<Rightarrow> (None, db))
      | TruncateCascade t \<Rightarrow>
          (case db t of None \<Rightarrow> (None, db) | Some rs \<Rightarrow> (Some 0, db(t := Some [])))
      | InsertInto t new_rows \<Rightarrow>
          (case db t of None \<Rightarrow> (None, db)
           | Some rs \<Rightarrow> (Some (length new_rows), db(t := Some (rs @ new_rows)))))"

section \<open>The integrity pass of the loader (EnhancedDataLoader.validate_referential_integrity)\<close>

text \<open>
  An entry of \<open>details\<close>: child table, child column, parent table, parent column and the
  number of orphaned records. The loop runs inside one \<open>try\<close>: a query that raises ends
  it, and the handler stores the error.
\<close>

type_synonym detail = "string \<times> string \<times> string \<times> string \<times> nat"

record integrity_results =
  checks_performed :: nat
  violations_found :: nat
  details :: "detail list"
  integrity_error :: bool

definition initial_integrity_results :: integrity_results where
  "initial_integrity_results =
     \<lparr>checks_performed = 0, violations_found = 0, details = [], integrity_error = False\<rparr>"

fun check_relationships ::
  "(string \<times> string \<times> string \<times> string) list \<Rightarrow> integrity_results \<times> 'v database
     \<Rightarrow> integrity_results \<times> 'v database" where
  "check_relationships [] (res, db) = (res, db)"
| "check_relationships ((child_table, child_col, parent_table, parent_col) # rest) (res, db) =
     (let res1 = res\<lparr>checks_performed := checks_performed res + 1\<rparr>
      in case execute (SelectCountOrphans child_table child_col parent_table parent_col) db of
           (None, db') \<Rightarrow> (res1\<lparr>integrity_error := True\<rparr>, db')
         | (Some violation_count, db') \<Rightarrow>
             check_relationships rest
               (if violation_count > 0
                then res1\<lparr>violations_found := violations_found res1 + violation_count,
                          details := details res1 @
                            [(child_table, child_col, parent_table, parent_col, violation_count)]\<rparr>
                else res1, db'))"

text \<open>\<open>connected\<close>: \<open>self.engine.connect()\<close> succeeds.\<close>

definition loader_validate_referential_integrity ::
  "bool \<Rightarrow> 'v database \<Rightarrow> integrity_results \<times> 'v database" where
  "loader_validate_referential_integrity connected db =
     (if connected then check_relationships relationships (initial_integrity_results, db)
      else (initial_integrity_results\<lparr>integrity_error := True\<rparr>, db))"

section \<open>The validator (ComprehensiveValidator.validate_referential_integrity)\<close>

record relationship =
  rel_name :: string
  child_table :: string
  child_column :: string
  parent_table :: string
  parent_column :: string
  allow_null :: bool

definition fk_relationships :: "relationship list" where
  "fk_relationships =
     [\<lparr>rel_name = ''providers_organization'', child_table = ''providers'',
       child_column = ''organization_id'', parent_table = ''organizations'',
       parent_column = ''id'', allow_null = True\<rparr>,
      \<lparr>rel_name = ''encounters_patient'', child_table = ''encounters'',
       child_column = ''patient_id'', parent_table = ''patients'',
       parent_column = ''id'', allow_null = False\<rparr>,
      \<lparr>rel_name = ''encounters_provider'', child_table = ''encounters'',
       child_column = ''provider_id'', parent_table = ''providers'',
       parent_column = ''id'', allow_null = True\<rparr>,
      \<lparr>rel_name = ''encounters_organization'', child_table = ''encounters'',
       child_column = ''organization_id'', parent_table = ''organizations'',
       parent_column = ''id'', allow_null = True\<rparr>,
      \<lparr>rel_name = ''encounters_payer'', child_table = ''encounters'',
       child_column = ''payer_id'', parent_table = ''payers'',
       parent_column = ''id'', allow_null = True\<rparr>,
      \<lparr>rel_name = ''conditions_patient'', child_table = ''conditions'',
       child_column = ''patient_id'', parent_table = ''patients'',
       parent_column = ''id'', allow_null = False\<rparr>,
      \<lparr>rel_name = ''conditions_encounter'', child_table = ''conditions'',
       child_column = ''encounter_id'', parent_table = ''encounters'',
       parent_column = ''id'', allow_null = True\<rparr>,
      \<lparr>rel_name = ''medications_patient'', child_table = ''medications'',
       child_column = ''patient_id'', parent_table = ''patients'',
       parent_column = ''id'', allow_null = False\<rparr>,
      \<lparr>rel_name = ''medications_encounter'', child_table = ''medications'',
       child_column = ''encounter_id'', parent_table = ''encounters'',
       parent_column = ''id'', allow_null = True\<rparr>,
      \<lparr>rel_name = ''medications_payer'', child_table = ''medications'',
       child_column = ''payer_id'', parent_table = ''payers'',
       parent_column = ''id'', allow_null = True\<rparr>]"

datatype issue = NullsInNonNullable nat | OrphanedRecords nat | ValidationError

record rel_result =
  relationship_of :: string
  child_records :: nat
  orphaned_records :: nat
  null_references :: nat
  valid :: bool
  issues :: "issue list"

record validation_results =
  total_checks :: nat
  passed_checks :: nat
  failed_checks :: nat
  violations :: "(string \<times> nat) list"
  relationship_details :: "(string \<times> rel_result) list"
  validation_error :: bool

definition initial_validation_results :: validation_results where
  "initial_validation_results =
     \<lparr>total_checks = 0, passed_checks = 0, failed_checks = 0, violations = [],
      relationship_details = [], validation_error = False\<rparr>"

text \<open>\<open>d[k] = v\<close> on a dictionary kept as a list of its items in insertion order.\<close>

fun dict_set :: "'k \<Rightarrow> 'a \<Rightarrow> ('k \<times> 'a) list \<Rightarrow> ('k \<times> 'a) list" where
  "dict_set k v [] = [(k, v)]"
| "dict_set k v ((k', v') # kvs) =
     (if k' = k then (k, v) # kvs else (k', v') # dict_set k v kvs)"

text \<open>
  The handler of the inner \<open>try\<close>: the relationship is invalid, with what was counted
  before the exception.
\<close>

definition validation_failed ::
  "rel_result \<Rightarrow> validation_results \<Rightarrow> rel_result \<times> validation_results" where
  "validation_failed r res =
     (r\<lparr>valid := False, issues := issues r @ [ValidationError]\<rparr>,
      res\<lparr>failed_checks := failed_checks res + 1\<rparr>)"

text \<open>The body of the loop for one relationship, up to the store into the details.\<close>

definition check_relationship ::
  "relationship \<Rightarrow> validation_results \<times> 'v database
     \<Rightarrow> (rel_result \<times> validation_results) \<times> 'v database" where
  "check_relationship rel resdb =
     (let res = (fst resdb)\<lparr>total_checks := total_checks (fst resdb) + 1\<rparr>;
          r0 = \<lparr>relationship_of = rel_name rel, child_records = 0, orphaned_records = 0,
                null_references = 0, valid = True, issues = []\<rparr>
      in case execute (SelectCount (child_table rel)) (snd resdb) of
           (None, db1) \<Rightarrow> (validation_failed r0 res, db1)
         | (Some n_child, db1) \<Rightarrow>
             (let r1 = r0\<lparr>child_records := n_child\<rparr>
              in case execute (SelectCountNull (child_table rel) (child_column rel)) db1 of
                   (None, db2) \<Rightarrow> (validation_failed r1 res, db2)
                 | (Some n_null, db2) \<Rightarrow>
                     (let r2 = r1\<lparr>null_references := n_null\<rparr>;
                          r3 = (if \<not> allow_null rel \<and> null_references r2 > 0
                                then r2\<lparr>valid := False,
                                        issues := issues r2 @ [NullsInNonNullable (null_references r2)]\<rparr>
                                else r2)
                      in case execute (SelectCountOrphans (child_table rel) (child_column rel)
                                         (parent_table rel) (parent_column rel)) db2 of
                           (None, db3) \<Rightarrow> (validation_failed r3 res, db3)
                         | (Some n_orphan, db3) \<Rightarrow>
                             (let r4 = r3\<lparr>orphaned_records := n_orphan\<rparr>;
                                  (r5, res5) =
                                    (if orphaned_records r4 > 0
                                     then (r4\<lparr>valid := False,
                                              issues := issues r4 @ [OrphanedRecords (orphaned_records r4)]\<rparr>,
                                           res\<lparr>violations := violations res @
                                                  [(rel_name rel, orphaned_records r4)]\<rparr>)
                                     else (r4, res))
                              in ((r5, if valid r5
                                       then res5\<lparr>passed_checks := passed_checks res5 + 1\<rparr>
                                       else res5\<lparr>failed_checks := failed_checks res5 + 1\<rparr>), db3)))))"

fun validate_relationships ::
  "relationship list \<Rightarrow> validation_results \<times> 'v database \<Rightarrow> validation_results \<times> 'v database" where
  "validate_relationships [] resdb = resdb"
| "validate_relationships (rel # rest) resdb =
     (let ((rel_result, res), db') = check_relationship rel resdb
      in validate_relationships rest
           (res\<lparr>relationship_details :=
                   dict_set (rel_name rel) rel_result (relationship_details res)\<rparr>, db'))"

definition validate_referential_integrity ::
  "bool \<Rightarrow> 'v database \<Rightarrow> validation_results \<times> 'v database" where
  "validate_referential_integrity connected db =
     (if connected then validate_relationships fk_relationships (initial_validation_results, db)
      else (initial_validation_results\<lparr>validation_error := True\<rparr>, db))"

section \<open>Notions used in the statements\<close>







text \<open>The number of write attempts that a trace holds for the batch of a given number.\<close>

fun write_attempts :: "nat \<Rightarrow> event list \<Rightarrow> nat" where
  "write_attempts n [] = 0"
| "write_attempts n (Write m a # es) =
     (if m = n then Suc (write_attempts n es) else write_attempts n es)"
| "write_attempts n (e # es) = write_attempts n es"

text \<open>The rows of the batch with a given index (from zero), as the batch loop cuts them.\<close>

definition batch_of :: "config \<Rightarrow> 'r list \<Rightarrow> nat \<Rightarrow> 'r list" where
  "batch_of cfg df n = iloc df (n * batch_size cfg) (min ((n + 1) * batch_size cfg) (length df))"

text \<open>
  One of the attempts of the batch with index \<open>n\<close>, from attempt \<open>a\<close> on, is answered
  with success; a batch succeeds when one of all its attempts is.
\<close>

definition succeeds_from :: "config \<Rightarrow> 'r store_env \<Rightarrow> nat \<Rightarrow> nat \<Rightarrow> bool" where
  "succeeds_from cfg env n a = list_ex (\<lambda>j. write_ok env (n + 1) j) [a..<max_retries cfg]"

definition batch_succeeds :: "config \<Rightarrow> 'r store_env \<Rightarrow> nat \<Rightarrow> bool" where
  "batch_succeeds cfg env n = succeeds_from cfg env n 0"

text \<open>
  The state in which \<open>load_table_with_retry\<close> enters its batch loop, and the number of
  batches it computes.
\<close>

definition batches_state :: "'v cell list list \<Rightarrow> 'v dataframe \<Rightarrow> 'v cell list load_state" where
  "batches_state existing df =
     (initial_state existing)\<lparr>total_rows_in_csv := len df, relation := [], trace := [Truncate]\<rparr>"

definition total_batches_of :: "config \<Rightarrow> 'v dataframe \<Rightarrow> nat" where
  "total_batches_of cfg df_clean = (len df_clean + batch_size cfg - 1) div batch_size cfg"


text \<open>
  The anti-join of the specification, written from its words: the child rows whose field is
  not null and for which no row of the parent has that value in the referenced field.
\<close>

definition anti_join_count :: "'v tuple list \<Rightarrow> 'v tuple list \<Rightarrow> string \<Rightarrow> string \<Rightarrow> nat" where
  "anti_join_count cs ps child_col parent_col =
     length (filter (\<lambda>c. c child_col \<noteq> None \<and> \<not> list_ex (\<lambda>p. p parent_col = c child_col) ps) cs)"

text \<open>The child rows whose field is null.\<close>

definition null_count :: "'v tuple list \<Rightarrow> string \<Rightarrow> nat" where
  "null_count cs child_col = length (filter (\<lambda>c. c child_col = None) cs)"

text \<open>
  One entry for each relationship, in the order of the list, whose anti-join count is not
  zero.
\<close>

definition expected_details ::
  "'v database \<Rightarrow> (string \<times> string \<times> string \<times> string) list \<Rightarrow> detail list" where
  "expected_details db rels =
     concat (map (\<lambda>(ct, cc, pt, pc).
        case (db ct, db pt) of
          (Some cs, Some ps) \<Rightarrow>
            (if anti_join_count cs ps cc pc > 0 then [(ct, cc, pt, pc, anti_join_count cs ps cc pc)]
             else [])
        | _ \<Rightarrow> []) rels)"

section \<open>A concrete library and store for the examples\<close>

text \<open>
  Values are strings. Numbers are strings of digits, dates are strings of digits and
  dashes, and the booleans are \<open>True\<close> and \<open>False\<close>. The inspector knows the
  relation \<open>organizations\<close>, with the columns and types of the schema of the repository.
\<close>

definition sample_pandas :: "string pandas" where
  "sample_pandas =
     \<lparr>is_inf = (\<lambda>v. v = ''inf'' \<or> v = ''-inf''),
      to_datetime = (\<lambda>v. if list_all (\<lambda>c. c \<in> set ''0123456789-'') v then Some v else None),
      dt_date = (\<lambda>v. v),
      to_numeric = (\<lambda>v. if list_all (\<lambda>c. c \<in> set ''0123456789'') v then Some v else None),
      as_boolean = (\<lambda>v. if v = ''True'' \<or> v = ''False'' then Some v else None)\<rparr>"

definition organizations_schema :: schema where
  "organizations_schema =
     \<lparr>schema_columns =
        [(''id'', ''UUID''), (''name'', ''VARCHAR(200)''), (''address'', ''VARCHAR(200)''),
         (''city'', ''VARCHAR(100)''), (''state'', ''VARCHAR(50)''),
         (''zip'', ''VARCHAR(10)''), (''latitude'', ''NUMERIC(10, 8)''),
         (''longitude'', ''NUMERIC(11, 8)''), (''phone'', ''VARCHAR(20)''),
         (''revenue'', ''NUMERIC(15, 2)''), (''utilization'', ''INTEGER'')],
      primary_keys = [''id'']\<rparr>"

definition sample_inspector :: inspector where
  "sample_inspector t = (if t = ''organizations'' then Some organizations_schema else None)"

definition failing_inspector :: inspector where
  "failing_inspector t = None"

definition sample_frame :: "string dataframe" where
  "sample_frame =
     \<lparr>columns = [''Id'', ''Name'', ''Revenue''],
      rows = [[None, Some ''Clinic A'', Some ''12''],
              [None, Some ''Clinic B'', Some ''inf''],
              [Some ''o1'', Some ''Clinic C'', Some ''abc'']]\<rparr>"

text \<open>
  Five organizations, loaded in batches of two. The stores differ in what they answer:
  one accepts a write from the fourth attempt on, one from the third attempt on, one
  rejects every write of the second batch, and one reports four rows whatever was
  written.
\<close>

definition five_rows :: "string dataframe" where
  "five_rows =
     \<lparr>columns = [''Id'', ''Name''],
      rows = [[Some ''o1'', Some ''A''], [Some ''o2'', Some ''B''], [Some ''o3'', Some ''C''],
              [Some ''o4'', Some ''D''], [Some ''o5'', Some ''E'']]\<rparr>"

definition small_batches :: config where
  "small_batches = \<lparr>batch_size = 2, max_retries = 3, retry_delay = 5\<rparr>"



definition second_batch_fails :: "'r store_env" where
  "second_batch_fails =
     \<lparr>truncate_ok = True, write_ok = (\<lambda>n a. n \<noteq> 2), count_reply = (\<lambda>rs. Some (length rs))\<rparr>"

definition miscounting_store :: "'r store_env" where
  "miscounting_store =
     \<lparr>truncate_ok = True, write_ok = (\<lambda>n a. True), count_reply = (\<lambda>rs. Some 4)\<rparr>"





text \<open>
  A database with one patient and three encounters: one of the patient, one of a patient
  that does not exist, and one without a patient. The other relations are empty. In the
  empty database every relation exists and has no row.
\<close>

definition row :: "(string \<times> 'v) list \<Rightarrow> 'v tuple" where
  "row kvs = map_of kvs"

definition sample_database :: "string database" where
  "sample_database t =
     (if t = ''patients'' then Some [row [(''id'', ''p1'')]]
      else if t = ''encounters''
      then Some [row [(''id'', ''e1''), (''patient_id'', ''p1'')],
                 row [(''id'', ''e2''), (''patient_id'', ''p9'')],
                 row [(''id'', ''e3'')]]
      else Some [])"

definition empty_database :: "string database" where
  "empty_database t = Some []"


section \<open>Cleaning: shape of the frame\<close>

lemma len_handle_missing: "len (handle_missing pd df) = len df"
  by (simp add: len_def handle_missing_def)

lemma len_apply_column_mapping: "len (apply_column_mapping t df) = len df"
  by (simp add: len_def apply_column_mapping_def rename_def split: option.splits)






section \<open>Cleaning: rows with a missing primary key\<close>










section \<open>Cleaning: values that cannot be parsed\<close>












section \<open>Cleaning without a schema\<close>

text \<open>
  C10. When the inspector raises for a table, \<open>get_table_schema\<close> returns the empty
  schema (and logs the error). The cleaning then converts no column and drops no row: the
  cleaned frame is the source frame after the renaming of the columns and the replacement
  of infinite values, and it has as many rows as the source.
\<close>

theorem clean_dataframe_without_schema:
  assumes "inspect table_name = None"
  shows "get_table_schema inspect table_name = (empty_schema, [FailedToGetSchema table_name]) \<and>
     clean_dataframe pd inspect df table_name =
       (handle_missing pd (apply_column_mapping table_name df), [FailedToGetSchema table_name]) \<and>
     len (fst (clean_dataframe pd inspect df table_name)) = len df"
  using assms
  by (simp add: clean_dataframe_def get_table_schema_def empty_schema_def
        len_handle_missing len_apply_column_mapping)

theorem clean_dataframe_without_schema_witness:
  "failing_inspector ''organizations'' = None \<and>
   clean_dataframe sample_pandas failing_inspector sample_frame ''organizations'' =
     (\<lparr>columns = [''id'', ''name'', ''revenue''],
       rows = [[None, Some ''Clinic A'', Some ''12''],
               [None, Some ''Clinic B'', None],
               [Some ''o1'', Some ''Clinic C'', Some ''abc'']]\<rparr>,
      [FailedToGetSchema ''organizations'']) \<and>
   len (fst (clean_dataframe sample_pandas failing_inspector sample_frame ''organizations'')) = 3"
proof -
  have h: "failing_inspector ''organizations'' = None" by (simp add: failing_inspector_def)
  have v: "handle_missing sample_pandas (apply_column_mapping ''organizations'' sample_frame) =
     \<lparr>columns = [''id'', ''name'', ''revenue''],
       rows = [[None, Some ''Clinic A'', Some ''12''],
               [None, Some ''Clinic B'', None],
               [Some ''o1'', Some ''Clinic C'', Some ''abc'']]\<rparr>"
    by code_simp
  have l: "len sample_frame = 3" by code_simp
  from clean_dataframe_without_schema[where inspect = failing_inspector
      and table_name = "''organizations''" and pd = sample_pandas and df = sample_frame, OF h] h v l
  show ?thesis by (simp add: len_def)
qed

section \<open>The retry loop\<close>

declare retry_loop.simps [simp del]

lemma write_attempts_append:
  "write_attempts n (xs @ ys) = write_attempts n xs + write_attempts n ys"
  by (induction n xs rule: write_attempts.induct) auto

lemma succeeds_from_step:
  "a < max_retries cfg \<Longrightarrow>
     succeeds_from cfg env n a = (write_ok env (n + 1) a \<or> succeeds_from cfg env n (a + 1))"
  by (simp add: succeeds_from_def upt_conv_Cons)

lemma succeeds_from_end: "max_retries cfg \<le> a \<Longrightarrow> \<not> succeeds_from cfg env n a"
  by (simp add: succeeds_from_def)

lemma retry_loop_result:
  "relation (retry_loop cfg env b n a st) =
      relation st @ (if succeeds_from cfg env n a then b else []) \<and>
   rows_loaded (retry_loop cfg env b n a st) =
      rows_loaded st + (if succeeds_from cfg env n a then length b else 0) \<and>
   batches_processed (retry_loop cfg env b n a st) =
      batches_processed st + (if succeeds_from cfg env n a then 1 else 0) \<and>
   errors (retry_loop cfg env b n a st) =
      errors st @ (if succeeds_from cfg env n a \<or> max_retries cfg \<le> a
                   then [] else [FailedToLoadBatch (n + 1) (max_retries cfg)]) \<and>
   warnings (retry_loop cfg env b n a st) = warnings st \<and>
   success (retry_loop cfg env b n a st) = success st \<and>
   total_rows_in_csv (retry_loop cfg env b n a st) = total_rows_in_csv st"
proof (induction cfg env b n a st rule: retry_loop.induct)
  case (1 cfg env b n a st)
  show ?case
  proof (cases "a < max_retries cfg")
    case False
    then have "\<not> succeeds_from cfg env n a" by (simp add: succeeds_from_end)
    with False show ?thesis by (simp add: retry_loop.simps[of cfg env b n a st])
  next
    case lt: True
    show ?thesis
    proof (cases "write_ok env (n + 1) a")
      case True
      with lt have "succeeds_from cfg env n a" by (simp add: succeeds_from_step)
      with lt True show ?thesis
        by (simp add: retry_loop.simps[of cfg env b n a st] load_table_batch_def Let_def)
    next
      case False
      let ?st' = "st\<lparr>trace := trace st @ [Write (n + 1) a]\<rparr>"
      have lb: "load_table_batch env b (n + 1) a st = ((False, 0), ?st')"
        using False by (simp add: load_table_batch_def Let_def)
      have ex: "succeeds_from cfg env n a = succeeds_from cfg env n (a + 1)"
        using lt False by (simp add: succeeds_from_step)
      show ?thesis
      proof (cases "a < max_retries cfg - 1")
        case True
        from True have nle: "\<not> max_retries cfg \<le> Suc a" by simp
        from "1.IH"(1)[OF lt lb[symmetric] refl _ True] lt lb True nle
        show ?thesis
          by (simp add: retry_loop.simps[of cfg env b n a st] ex)
      next
        case last: False
        with lt have am: "max_retries cfg = a + 1" by simp
        then have noex: "\<not> succeeds_from cfg env n (a + 1)"
          by (simp add: succeeds_from_end)
        from "1.IH"(2)[OF lt lb[symmetric] refl _ last] lt lb last noex
        show ?thesis
          by (simp add: retry_loop.simps[of cfg env b n a st] ex am)
      qed
    qed
  qed
qed

lemma retry_loop_trace_count:
  "\<exists>new. trace (retry_loop cfg env b n a st) = trace st @ new \<and>
     write_attempts (n + 1) new \<le> max_retries cfg - a \<and>
     (a < max_retries cfg \<longrightarrow> Write (n + 1) a \<in> set new) \<and>
     (\<forall>m. m \<noteq> n + 1 \<longrightarrow> write_attempts m new = 0) \<and>
     Count \<notin> set new \<and> Truncate \<notin> set new \<and> TruncateFailed \<notin> set new"
proof (induction cfg env b n a st rule: retry_loop.induct)
  case (1 cfg env b n a st)
  show ?case
  proof (cases "a < max_retries cfg")
    case False
    then show ?thesis by (simp add: retry_loop.simps[of cfg env b n a st])
  next
    case lt: True
    show ?thesis
    proof (cases "write_ok env (n + 1) a")
      case True
      with lt show ?thesis
        by (simp add: retry_loop.simps[of cfg env b n a st] load_table_batch_def Let_def)
    next
      case False
      let ?st' = "st\<lparr>trace := trace st @ [Write (n + 1) a]\<rparr>"
      have lb: "load_table_batch env b (n + 1) a st = ((False, 0), ?st')"
        using False by (simp add: load_table_batch_def Let_def)
      show ?thesis
      proof (cases "a < max_retries cfg - 1")
        case True
        from "1.IH"(1)[OF lt lb[symmetric] refl _ True] obtain new where
          n: "trace (retry_loop cfg env b n (a + 1) (?st'\<lparr>trace := trace ?st' @ [Sleep (retry_delay cfg)]\<rparr>))
               = trace (?st'\<lparr>trace := trace ?st' @ [Sleep (retry_delay cfg)]\<rparr>) @ new"
           "write_attempts (n + 1) new \<le> max_retries cfg - (a + 1)"
           "\<forall>m. m \<noteq> n + 1 \<longrightarrow> write_attempts m new = 0"
           "Count \<notin> set new \<and> Truncate \<notin> set new \<and> TruncateFailed \<notin> set new"
          by auto
        let ?new = "[Write (n + 1) a, Sleep (retry_delay cfg)] @ new"
        from n lt lb True have
          "trace (retry_loop cfg env b n a st) = trace st @ ?new"
          by (simp add: retry_loop.simps[of cfg env b n a st])
        moreover from n lt have "write_attempts (n + 1) ?new \<le> max_retries cfg - a" by simp
        moreover have "Write (n + 1) a \<in> set ?new" by simp
        moreover from n have "\<forall>m. m \<noteq> n + 1 \<longrightarrow> write_attempts m ?new = 0" by simp
        moreover from n have "Count \<notin> set ?new \<and> Truncate \<notin> set ?new \<and> TruncateFailed \<notin> set ?new"
          by simp
        ultimately show ?thesis by blast
      next
        case last: False
        from "1.IH"(2)[OF lt lb[symmetric] refl _ last] obtain new where
          n: "trace (retry_loop cfg env b n (a + 1)
                 (?st'\<lparr>errors := errors ?st' @ [FailedToLoadBatch (n + 1) (max_retries cfg)]\<rparr>))
               = trace (?st'\<lparr>errors := errors ?st' @ [FailedToLoadBatch (n + 1) (max_retries cfg)]\<rparr>) @ new"
           "write_attempts (n + 1) new \<le> max_retries cfg - (a + 1)"
           "\<forall>m. m \<noteq> n + 1 \<longrightarrow> write_attempts m new = 0"
           "Count \<notin> set new \<and> Truncate \<notin> set new \<and> TruncateFailed \<notin> set new"
          by auto
        let ?new = "[Write (n + 1) a] @ new"
        from n lt lb last have
          "trace (retry_loop cfg env b n a st) = trace st @ ?new"
          by (simp add: retry_loop.simps[of cfg env b n a st])
        moreover from n lt have "write_attempts (n + 1) ?new \<le> max_retries cfg - a" by simp
        moreover have "Write (n + 1) a \<in> set ?new" by simp
        moreover from n have "\<forall>m. m \<noteq> n + 1 \<longrightarrow> write_attempts m ?new = 0" by simp
        moreover from n have "Count \<notin> set ?new \<and> Truncate \<notin> set ?new \<and> TruncateFailed \<notin> set ?new"
          by simp
        ultimately show ?thesis by blast
      qed
    qed
  qed
qed




lemma batch_loop_result:
  "relation (batch_loop cfg env df ns st) =
      relation st @ concat (map (batch_of cfg df) (filter (batch_succeeds cfg env) ns)) \<and>
   rows_loaded (batch_loop cfg env df ns st) =
      rows_loaded st + length (concat (map (batch_of cfg df) (filter (batch_succeeds cfg env) ns))) \<and>
   batches_processed (batch_loop cfg env df ns st) =
      batches_processed st + length (filter (batch_succeeds cfg env) ns) \<and>
   errors (batch_loop cfg env df ns st) =
      errors st @ (if max_retries cfg = 0 then []
                   else map (\<lambda>n. FailedToLoadBatch (n + 1) (max_retries cfg))
                          (filter (\<lambda>n. \<not> batch_succeeds cfg env n) ns)) \<and>
   warnings (batch_loop cfg env df ns st) = warnings st \<and>
   success (batch_loop cfg env df ns st) = success st \<and>
   total_rows_in_csv (batch_loop cfg env df ns st) = total_rows_in_csv st"
proof (induction ns arbitrary: st)
  case Nil
  then show ?case by simp
next
  case (Cons n ns)
  let ?st1 = "retry_loop cfg env (batch_of cfg df n) n 0 st"
  have step: "batch_loop cfg env df (n # ns) st = batch_loop cfg env df ns ?st1"
    by (simp add: Let_def batch_of_def)
  from Cons.IH[of ?st1] retry_loop_result[of cfg env "batch_of cfg df n" n 0 st]
  show ?case unfolding step by (simp add: batch_succeeds_def)
qed

lemma batch_loop_trace:
  "distinct ns \<Longrightarrow>
   \<exists>new. trace (batch_loop cfg env df ns st) = trace st @ new \<and>
     (\<forall>m. write_attempts m new \<le> max_retries cfg) \<and>
     (\<forall>m. m \<notin> Suc ` set ns \<longrightarrow> write_attempts m new = 0) \<and>
     (0 < max_retries cfg \<longrightarrow> (\<forall>n \<in> set ns. Write (n + 1) 0 \<in> set new)) \<and>
     Count \<notin> set new \<and> Truncate \<notin> set new \<and> TruncateFailed \<notin> set new"
proof (induction ns arbitrary: st)
  case Nil
  then show ?case by simp
next
  case (Cons n ns)
  let ?st1 = "retry_loop cfg env (batch_of cfg df n) n 0 st"
  have step: "batch_loop cfg env df (n # ns) st = batch_loop cfg env df ns ?st1"
    by (simp add: Let_def batch_of_def)
  from retry_loop_trace_count[of cfg env "batch_of cfg df n" n 0 st]
  obtain new1 where n1: "trace ?st1 = trace st @ new1"
    "write_attempts (n + 1) new1 \<le> max_retries cfg"
    "0 < max_retries cfg \<longrightarrow> Write (n + 1) 0 \<in> set new1"
    "\<forall>m. m \<noteq> n + 1 \<longrightarrow> write_attempts m new1 = 0"
    "Count \<notin> set new1 \<and> Truncate \<notin> set new1 \<and> TruncateFailed \<notin> set new1"
    by auto
  from Cons.prems have d: "distinct ns" and nn: "n \<notin> set ns" by simp_all
  from Cons.IH[OF d, of ?st1]
  obtain new2 where n2: "trace (batch_loop cfg env df ns ?st1) = trace ?st1 @ new2"
    "\<forall>m. write_attempts m new2 \<le> max_retries cfg"
    "\<forall>m. m \<notin> Suc ` set ns \<longrightarrow> write_attempts m new2 = 0"
    "0 < max_retries cfg \<longrightarrow> (\<forall>n \<in> set ns. Write (n + 1) 0 \<in> set new2)"
    "Count \<notin> set new2 \<and> Truncate \<notin> set new2 \<and> TruncateFailed \<notin> set new2"
    by auto
  let ?new = "new1 @ new2"
  have a: "trace (batch_loop cfg env df (n # ns) st) = trace st @ ?new"
    unfolding step using n1(1) n2(1) by simp
  have b: "\<forall>m. write_attempts m ?new \<le> max_retries cfg"
  proof
    fix m
    show "write_attempts m ?new \<le> max_retries cfg"
    proof (cases "m = n + 1")
      case True
      with nn have "m \<notin> Suc ` set ns" by auto
      with n2(3) have "write_attempts m new2 = 0" by simp
      with n1(2) True show ?thesis by (simp add: write_attempts_append)
    next
      case False
      with n1(4) have "write_attempts m new1 = 0" by simp
      with n2(2) show ?thesis by (simp add: write_attempts_append)
    qed
  qed
  have c: "\<forall>m. m \<notin> Suc ` set (n # ns) \<longrightarrow> write_attempts m ?new = 0"
    using n1(4) n2(3) by (auto simp: write_attempts_append)
  have e: "0 < max_retries cfg \<longrightarrow> (\<forall>k \<in> set (n # ns). Write (k + 1) 0 \<in> set ?new)"
    using n1(3) n2(4) by auto
  have f: "Count \<notin> set ?new \<and> Truncate \<notin> set ?new \<and> TruncateFailed \<notin> set ?new"
    using n1(5) n2(5) by simp
  show ?case by (rule exI[of _ ?new]) (use a b c e f in blast)
qed

lemma verify_loaded_data_fields:
  "relation (verify_loaded_data env st) = relation st \<and>
   trace (verify_loaded_data env st) = trace st @ [Count] \<and>
   batches_processed (verify_loaded_data env st) = batches_processed st \<and>
   total_rows_in_csv (verify_loaded_data env st) = total_rows_in_csv st"
  by (simp add: verify_loaded_data_def Let_def split: option.splits)

lemma verify_loaded_data_count:
  "count_reply env (relation st) = Some actual_count \<Longrightarrow>
   rows_loaded (verify_loaded_data env st) = actual_count \<and>
   warnings (verify_loaded_data env st) =
     warnings st @ (if actual_count \<noteq> rows_loaded st
                    then [RowCountMismatch (rows_loaded st) actual_count] else []) \<and>
   errors (verify_loaded_data env st) = errors st \<and>
   success (verify_loaded_data env st) = (errors st = [])"
  by (simp add: verify_loaded_data_def Let_def)

lemma load_table_with_retry_batches:
  assumes "csv = Parsed df" "len df \<noteq> 0" "len (fst (clean_dataframe pd inspect df t)) \<noteq> 0"
    "truncate_ok env" "batch_size cfg \<noteq> 0"
  shows "load_table_with_retry pd inspect cfg env existing csv t =
     verify_loaded_data env
       (batch_loop cfg env (rows (fst (clean_dataframe pd inspect df t)))
          [0..<total_batches_of cfg (fst (clean_dataframe pd inspect df t))]
          (batches_state existing df))"
  using assms
  by (simp add: load_table_with_retry_def validate_csv_file_def Let_def batches_state_def
        total_batches_of_def initial_state_def split: option.splits)

lemma load_table_with_retry_other:
  assumes "\<not> (\<exists>df. csv = Parsed df \<and> len df \<noteq> 0 \<and> len (fst (clean_dataframe pd inspect df t)) \<noteq> 0 \<and>
    truncate_ok env \<and> batch_size cfg \<noteq> 0)"
  shows "trace (load_table_with_retry pd inspect cfg env existing csv t) \<in> {[], [TruncateFailed], [Truncate]}"
  using assms
  by (cases csv)
     (auto simp: load_table_with_retry_def validate_csv_file_def Let_def initial_state_def
        split: option.splits)








section \<open>The count after the load\<close>

text \<open>
  C4. When a load comes to its verification step and the store answers the count query,
  the reported \<open>rows_loaded\<close> is the answer of the store. The rows written by the
  successful batches are the rows of \<open>relation\<close>; when the answer differs from their
  number, the statistics hold the warning with both numbers, and no warning otherwise.
\<close>

theorem rows_loaded_is_store_count:
  assumes "Count \<in> set (trace (load_table_with_retry pd inspect cfg env existing csv t))"
    and "count_reply env (relation (load_table_with_retry pd inspect cfg env existing csv t))
           = Some actual_count"
  shows "rows_loaded (load_table_with_retry pd inspect cfg env existing csv t) = actual_count \<and>
     warnings (load_table_with_retry pd inspect cfg env existing csv t) =
       (if actual_count \<noteq> length (relation (load_table_with_retry pd inspect cfg env existing csv t))
        then [RowCountMismatch
                (length (relation (load_table_with_retry pd inspect cfg env existing csv t)))
                actual_count]
        else [])"
proof -
  have "\<exists>df. csv = Parsed df \<and> len df \<noteq> 0 \<and> len (fst (clean_dataframe pd inspect df t)) \<noteq> 0 \<and>
    truncate_ok env \<and> batch_size cfg \<noteq> 0"
  proof (rule ccontr)
    assume n: "\<not> (\<exists>df. csv = Parsed df \<and> len df \<noteq> 0 \<and>
       len (fst (clean_dataframe pd inspect df t)) \<noteq> 0 \<and> truncate_ok env \<and> batch_size cfg \<noteq> 0)"
    from load_table_with_retry_other[OF n, of existing] assms(1) show False by auto
  qed
  then obtain df where df: "csv = Parsed df" "len df \<noteq> 0"
    "len (fst (clean_dataframe pd inspect df t)) \<noteq> 0" "truncate_ok env" "batch_size cfg \<noteq> 0"
    by blast
  let ?c = "fst (clean_dataframe pd inspect df t)"
  let ?b = "batch_loop cfg env (rows ?c) [0..<total_batches_of cfg ?c] (batches_state existing df)"
  have r: "load_table_with_retry pd inspect cfg env existing csv t = verify_loaded_data env ?b"
    by (rule load_table_with_retry_batches[OF df])
  from batch_loop_result[of cfg env "rows ?c" "[0..<total_batches_of cfg ?c]" "batches_state existing df"]
  have inv: "rows_loaded ?b = length (relation ?b)" "warnings ?b = []"
    by (simp_all add: batches_state_def initial_state_def)
  from assms(2) have c: "count_reply env (relation ?b) = Some actual_count"
    by (simp add: r verify_loaded_data_fields)
  from verify_loaded_data_count[OF c] inv show ?thesis
    by (simp add: r verify_loaded_data_fields)
qed

theorem rows_loaded_is_store_count_witness:
  "Count \<in> set (trace (load_table_with_retry sample_pandas sample_inspector small_batches
                          miscounting_store [] (Parsed five_rows) ''organizations'')) \<and>
   count_reply (miscounting_store :: string cell list store_env)
     (relation (load_table_with_retry sample_pandas sample_inspector small_batches
                  miscounting_store [] (Parsed five_rows) ''organizations'')) = Some 4 \<and>
   length (relation (load_table_with_retry sample_pandas sample_inspector small_batches
                  miscounting_store [] (Parsed five_rows) ''organizations'')) = 5 \<and>
   rows_loaded (load_table_with_retry sample_pandas sample_inspector small_batches
                  miscounting_store [] (Parsed five_rows) ''organizations'') = 4 \<and>
   warnings (load_table_with_retry sample_pandas sample_inspector small_batches
                  miscounting_store [] (Parsed five_rows) ''organizations'') =
     [RowCountMismatch 5 4]"
proof -
  let ?r = "load_table_with_retry sample_pandas sample_inspector small_batches
              miscounting_store [] (Parsed five_rows) ''organizations''"
  have h1: "Count \<in> set (trace ?r)" by code_simp
  have h2: "count_reply (miscounting_store :: string cell list store_env) (relation ?r) = Some 4"
    by (simp add: miscounting_store_def)
  have l: "length (relation ?r) = 5" by code_simp
  from rows_loaded_is_store_count[OF h1 h2] h1 h2 l show ?thesis by simp
qed

section \<open>A batch that fails for good\<close>

lemma load_tables_keys:
  "map fst (table_stats (load_tables pd inspect cfg src ts ls)) =
     map fst (table_stats ls) @ filter (\<lambda>t. csv_of src t \<noteq> NoFile) ts"
  by (induction ts arbitrary: ls) (simp_all add: Let_def)

lemma load_all_tables_keys:
  "load_all_tables pd inspect cfg src connection_valid = Some ls \<Longrightarrow>
     map fst (table_stats ls) = filter (\<lambda>t. csv_of src t \<noteq> NoFile) loading_order"
  by (auto simp: load_all_tables_def load_tables_keys initial_loading_stats_def split: if_splits)

lemma simple_batch_loop_result:
  "simple_batch_loop env df t bsize ns (l, st) = (l', st') \<Longrightarrow>
     calls st' = calls st @ map (\<lambda>k. ToSql t (k + 1)) ns \<and>
     stats_errors st' = stats_errors st @
        map (\<lambda>k. BatchError t (k + 1)) (filter (\<lambda>k. \<not> can_write env t (k + 1)) ns) \<and>
     relations st' t = relations st t @
        concat (map (\<lambda>k. iloc df (k * bsize) (min ((k + 1) * bsize) (length df)))
                  (filter (\<lambda>k. can_write env t (k + 1)) ns)) \<and>
     (\<forall>u. u \<noteq> t \<longrightarrow> relations st' u = relations st u) \<and>
     tables_loaded st' = tables_loaded st \<and> total_rows st' = total_rows st"
proof (induction ns arbitrary: l st)
  case Nil
  then show ?case by simp
next
  case (Cons k ns)
  show ?case
  proof (cases "can_write env t (k + 1)")
    case True
    let ?b = "iloc df (k * bsize) (min ((k + 1) * bsize) (length df))"
    let ?st = "st\<lparr>calls := calls st @ [ToSql t (k + 1)],
                  relations := (relations st)(t := relations st t @ ?b)\<rparr>"
    from Cons.prems True have "simple_batch_loop env df t bsize ns (l + length ?b, ?st) = (l', st')"
      by (simp add: Let_def)
    from Cons.IH[OF this] True show ?thesis by simp
  next
    case False
    let ?st = "st\<lparr>calls := calls st @ [ToSql t (k + 1)],
                  stats_errors := stats_errors st @ [BatchError t (k + 1)]\<rparr>"
    from Cons.prems False have "simple_batch_loop env df t bsize ns (l, ?st) = (l', st')"
      by (simp add: Let_def)
    from Cons.IH[OF this] False show ?thesis by simp
  qed
qed

lemma verify_loaded_data_errors:
  "set (errors st) \<subseteq> set (errors (verify_loaded_data env st))"
  by (auto simp: verify_loaded_data_def Let_def split: option.splits)

text \<open>
  C5. Take a load that reaches its batch loop, and a batch all of whose \<open>max_retries\<close>
  attempts fail. The error for that batch is in the statistics of the table. Every batch
  of the table is attempted, those after the failed one included, and the load goes on to
  its verification step: it is not aborted. The relation holds the rows of the batches
  that succeeded and no others, so the rows of the failed batch are not part of what a
  store that counts these rows reports. The run is not aborted either: the tables loaded
  are all the tables of the loading order that have a file, whatever happened to their
  batches. In the simple loader, which makes one attempt per batch, every batch is
  written in turn and each failure is recorded in the errors.
\<close>

theorem failed_batch_does_not_abort:
  assumes "csv = Parsed df" and "len df \<noteq> 0"
    and "df_clean = fst (clean_dataframe pd inspect df t)" and "len df_clean \<noteq> 0"
    and "truncate_ok env" and "batch_size cfg \<noteq> 0" and "0 < max_retries cfg"
    and "n < total_batches_of cfg df_clean" and "\<not> batch_succeeds cfg env n"
    and "r = load_table_with_retry pd inspect cfg env existing csv t"
  shows "FailedToLoadBatch (n + 1) (max_retries cfg) \<in> set (errors r) \<and>
     (\<forall>k<total_batches_of cfg df_clean. Write (k + 1) 0 \<in> set (trace r)) \<and>
     Count \<in> set (trace r) \<and>
     relation r = concat (map (batch_of cfg (rows df_clean))
                            (filter (batch_succeeds cfg env) [0..<total_batches_of cfg df_clean])) \<and>
     (count_reply env (relation r) = Some (length (relation r)) \<longrightarrow>
        rows_loaded r = length (relation r)) \<and>
     (load_all_tables pd inspect cfg src connection_valid = Some ls \<longrightarrow>
        map fst (table_stats ls) = filter (\<lambda>t. csv_of src t \<noteq> NoFile) loading_order) \<and>
     (simple_batch_loop senv sdf tbl bsize ns (l, sst) = (l', sst') \<longrightarrow>
        calls sst' = calls sst @ map (\<lambda>k. ToSql tbl (k + 1)) ns \<and>
        stats_errors sst' = stats_errors sst @
          map (\<lambda>k. BatchError tbl (k + 1)) (filter (\<lambda>k. \<not> can_write senv tbl (k + 1)) ns))"
proof -
  let ?tot = "total_batches_of cfg df_clean"
  let ?b = "batch_loop cfg env (rows df_clean) [0..<?tot] (batches_state existing df)"
  from assms have r: "r = verify_loaded_data env ?b"
    by (simp add: load_table_with_retry_batches)
  from batch_loop_result[of cfg env "rows df_clean" "[0..<?tot]" "batches_state existing df"]
  have res: "relation ?b = concat (map (batch_of cfg (rows df_clean))
                            (filter (batch_succeeds cfg env) [0..<?tot]))"
    "rows_loaded ?b = length (relation ?b)"
    "errors ?b = map (\<lambda>n. FailedToLoadBatch (n + 1) (max_retries cfg))
                   (filter (\<lambda>n. \<not> batch_succeeds cfg env n) [0..<?tot])"
    using assms(7) by (simp_all add: batches_state_def initial_state_def)
  from assms(8,9) have "FailedToLoadBatch (n + 1) (max_retries cfg) \<in> set (errors ?b)"
    unfolding res(3) by auto
  with verify_loaded_data_errors[of ?b env]
  have 1: "FailedToLoadBatch (n + 1) (max_retries cfg) \<in> set (errors r)"
    unfolding r by blast
  from batch_loop_trace[of "[0..<?tot]" cfg env "rows df_clean" "batches_state existing df"] assms(7)
  obtain new where new: "trace ?b = trace (batches_state existing df) @ new"
    "\<forall>k \<in> set [0..<?tot]. Write (k + 1) 0 \<in> set new" by auto
  have 2: "\<forall>k<?tot. Write (k + 1) 0 \<in> set (trace r)"
    using new by (simp add: r verify_loaded_data_fields)
  have 3: "Count \<in> set (trace r)" by (simp add: r verify_loaded_data_fields)
  have 4: "relation r = concat (map (batch_of cfg (rows df_clean))
                            (filter (batch_succeeds cfg env) [0..<?tot]))"
    using res(1) by (simp add: r verify_loaded_data_fields)
  have 5: "count_reply env (relation r) = Some (length (relation r)) \<longrightarrow>
        rows_loaded r = length (relation r)"
  proof
    assume "count_reply env (relation r) = Some (length (relation r))"
    then have "count_reply env (relation ?b) = Some (length (relation ?b))"
      by (simp add: r verify_loaded_data_fields)
    from verify_loaded_data_count[OF this] show "rows_loaded r = length (relation r)"
      by (simp add: r verify_loaded_data_fields)
  qed
  have 6: "load_all_tables pd inspect cfg src connection_valid = Some ls \<longrightarrow>
        map fst (table_stats ls) = filter (\<lambda>t. csv_of src t \<noteq> NoFile) loading_order"
    using load_all_tables_keys by blast
  have 7: "simple_batch_loop senv sdf tbl bsize ns (l, sst) = (l', sst') \<longrightarrow>
        calls sst' = calls sst @ map (\<lambda>k. ToSql tbl (k + 1)) ns \<and>
        stats_errors sst' = stats_errors sst @
          map (\<lambda>k. BatchError tbl (k + 1)) (filter (\<lambda>k. \<not> can_write senv tbl (k + 1)) ns)"
    using simple_batch_loop_result by blast
  from 1 2 3 4 5 6 7 show ?thesis by blast
qed


theorem failed_batch_does_not_abort_witness:
  "\<not> batch_succeeds small_batches (second_batch_fails :: string cell list store_env) 1 \<and>
   (1::nat) < total_batches_of small_batches
                (fst (clean_dataframe sample_pandas sample_inspector five_rows ''organizations'')) \<and>
   FailedToLoadBatch 2 3 \<in> set (errors (load_table_with_retry sample_pandas sample_inspector
        small_batches second_batch_fails [] (Parsed five_rows) ''organizations'')) \<and>
   Write 3 0 \<in> set (trace (load_table_with_retry sample_pandas sample_inspector
        small_batches second_batch_fails [] (Parsed five_rows) ''organizations'')) \<and>
   Count \<in> set (trace (load_table_with_retry sample_pandas sample_inspector
        small_batches second_batch_fails [] (Parsed five_rows) ''organizations'')) \<and>
   relation (load_table_with_retry sample_pandas sample_inspector
        small_batches second_batch_fails [] (Parsed five_rows) ''organizations'') =
     [[Some ''o1'', Some ''A''], [Some ''o2'', Some ''B''], [Some ''o5'', Some ''E'']] \<and>
   rows_loaded (load_table_with_retry sample_pandas sample_inspector
        small_batches second_batch_fails [] (Parsed five_rows) ''organizations'') = 3"
proof -
  let ?env = "second_batch_fails :: string cell list store_env"
  let ?c = "fst (clean_dataframe sample_pandas sample_inspector five_rows ''organizations'')"
  let ?r = "load_table_with_retry sample_pandas sample_inspector
        small_batches ?env [] (Parsed five_rows) ''organizations''"
  have h2: "len five_rows \<noteq> 0" by code_simp
  have h4: "len ?c \<noteq> 0" by code_simp
  have h5: "truncate_ok ?env" by (simp add: second_batch_fails_def)
  have h6: "batch_size small_batches \<noteq> 0" by (simp add: small_batches_def)
  have h7: "0 < max_retries small_batches" by (simp add: small_batches_def)
  have h8: "1 < total_batches_of small_batches ?c" by code_simp
  have h8': "2 < total_batches_of small_batches ?c" by code_simp
  have h9: "\<not> batch_succeeds small_batches ?env 1" by code_simp
  have v: "concat (map (batch_of small_batches (rows ?c))
             (filter (batch_succeeds small_batches ?env) [0..<total_batches_of small_batches ?c])) =
     [[Some ''o1'', Some ''A''], [Some ''o2'', Some ''B''], [Some ''o5'', Some ''E'']]"
    by code_simp
  note t = failed_batch_does_not_abort[OF refl h2 refl h4 h5 h6 h7 h8 h9 refl,
      where existing = "[]"]
  have mr: "max_retries small_batches = 3" by (simp add: small_batches_def)
  from t[THEN conjunct1] have 1: "FailedToLoadBatch 2 3 \<in> set (errors ?r)"
    by (simp add: mr numeral_2_eq_2)
  from t[THEN conjunct2, THEN conjunct1] h8' have "Write (2 + 1) 0 \<in> set (trace ?r)" by blast
  then have 2: "Write 3 0 \<in> set (trace ?r)" by simp
  from t[THEN conjunct2, THEN conjunct2, THEN conjunct1] have 3: "Count \<in> set (trace ?r)" .
  from t[THEN conjunct2, THEN conjunct2, THEN conjunct2, THEN conjunct1] v
  have 4: "relation ?r =
     [[Some ''o1'', Some ''A''], [Some ''o2'', Some ''B''], [Some ''o5'', Some ''E'']]" by simp
  have "count_reply ?env (relation ?r) = Some (length (relation ?r))"
    by (simp add: second_batch_fails_def)
  with t[THEN conjunct2, THEN conjunct2, THEN conjunct2, THEN conjunct2, THEN conjunct1]
  have "rows_loaded ?r = length (relation ?r)" by blast
  with 4 have 5: "rows_loaded ?r = 3" by simp
  from h9 h8 1 2 3 4 5 show ?thesis by blast
qed

section \<open>The order of the loads\<close>









section \<open>A truncate that fails\<close>











section \<open>The integrity checks\<close>

lemma left_join_orphans:
  "length (filter (orphan_condition cc pc) (left_join cs ps cc pc)) = anti_join_count cs ps cc pc"
proof (induction cs)
  case Nil
  then show ?case by (simp add: left_join_def anti_join_count_def)
next
  case (Cons c cs)
  let ?ms = "filter (\<lambda>p. sql_eq (c cc) (p pc)) ps"
  have split: "left_join (c # cs) ps cc pc =
      (if ?ms = [] then [(c, None)] else map (\<lambda>p. (c, Some p)) ?ms) @ left_join cs ps cc pc"
    by (simp add: left_join_def Let_def)
  have one: "length (filter (orphan_condition cc pc)
               (if ?ms = [] then [(c, None)] else map (\<lambda>p. (c, Some p)) ?ms)) =
             (if c cc \<noteq> None \<and> \<not> list_ex (\<lambda>p. p pc = c cc) ps then 1 else 0)"
  proof (cases "?ms = []")
    case True
    then have "\<forall>p \<in> set ps. \<not> sql_eq (c cc) (p pc)" by (simp add: filter_empty_conv)
    then have "c cc \<noteq> None \<longrightarrow> \<not> list_ex (\<lambda>p. p pc = c cc) ps"
      by (auto simp: sql_eq_def list_ex_iff)
    with True show ?thesis by (auto simp: orphan_condition_def)
  next
    case False
    then obtain p where "p \<in> set ?ms" by (cases ?ms) auto
    then have p: "p \<in> set ps" "sql_eq (c cc) (p pc)" by simp_all
    then have ex: "list_ex (\<lambda>p. p pc = c cc) ps" by (auto simp: sql_eq_def list_ex_iff)
    have "filter (orphan_condition cc pc) (map (\<lambda>p. (c, Some p)) ?ms) = []"
      by (auto simp: filter_empty_conv orphan_condition_def sql_eq_def)
    with False ex show ?thesis by simp
  qed
  from Cons.IH one show ?case
    unfolding split by (simp add: anti_join_count_def)
qed

lemma execute_orphans:
  "db ct = Some cs \<Longrightarrow> db pt = Some ps \<Longrightarrow>
     execute (SelectCountOrphans ct cc pt pc) db = (Some (anti_join_count cs ps cc pc), db)"
  by (simp add: execute_def left_join_orphans)

lemma execute_orphans_no_child:
  "db ct = None \<Longrightarrow> execute (SelectCountOrphans ct cc pt pc) db = (None, db)"
  by (simp add: execute_def)

lemma execute_orphans_no_parent:
  "db pt = None \<Longrightarrow> execute (SelectCountOrphans ct cc pt pc) db = (None, db)"
  by (cases "db ct") (simp_all add: execute_def)

lemma execute_orphans_missing:
  "db ct = None \<or> db pt = None \<Longrightarrow> execute (SelectCountOrphans ct cc pt pc) db = (None, db)"
  using execute_orphans_no_child execute_orphans_no_parent by blast

lemma execute_count: "execute (SelectCount t) db = (map_option length (db t), db)"
  by (simp add: execute_def)

lemma execute_count_null:
  "execute (SelectCountNull t col) db = (map_option (\<lambda>rs. null_count rs col) (db t), db)"
  by (simp add: execute_def null_count_def)

lemma check_relationships_keeps:
  "snd (check_relationships rels (res, db)) = db"
proof (induction rels arbitrary: res)
  case Nil
  then show ?case by simp
next
  case (Cons r rels)
  obtain ct cc pt pc where r: "r = (ct, cc, pt, pc)" by (cases r)
  show ?case
  proof (cases "db ct = None \<or> db pt = None")
    case True
    then show ?thesis by (simp add: r execute_orphans_missing Let_def)
  next
    case False
    then obtain cs ps where "db ct = Some cs" "db pt = Some ps" by auto
    with Cons.IH show ?thesis by (simp add: r execute_orphans Let_def)
  qed
qed

lemma check_relationships_result:
  "list_all (\<lambda>(ct, cc, pt, pc). db ct \<noteq> None \<and> db pt \<noteq> None) rels \<Longrightarrow>
   details (fst (check_relationships rels (res, db))) = details res @ expected_details db rels \<and>
   checks_performed (fst (check_relationships rels (res, db))) = checks_performed res + length rels \<and>
   integrity_error (fst (check_relationships rels (res, db))) = integrity_error res"
proof (induction rels arbitrary: res)
  case Nil
  then show ?case by (simp add: expected_details_def)
next
  case (Cons r rels)
  obtain ct cc pt pc where r: "r = (ct, cc, pt, pc)" by (cases r)
  with Cons.prems obtain cs ps where t: "db ct = Some cs" "db pt = Some ps" by auto
  from Cons.prems have rest: "list_all (\<lambda>(ct, cc, pt, pc). db ct \<noteq> None \<and> db pt \<noteq> None) rels"
    by simp
  have e: "expected_details db (r # rels) =
      (if anti_join_count cs ps cc pc > 0 then [(ct, cc, pt, pc, anti_join_count cs ps cc pc)] else [])
      @ expected_details db rels"
    by (simp add: expected_details_def r t)
  show ?case
    unfolding e using Cons.IH[OF rest] by (simp add: r execute_orphans[OF t] Let_def)
qed

lemma dict_set_keys:
  "map fst (dict_set k v kvs) = (if k \<in> fst ` set kvs then map fst kvs else map fst kvs @ [k])"
proof (induction kvs)
  case Nil
  then show ?case by simp
next
  case (Cons a kvs)
  obtain k' v' where a: "a = (k', v')" by (cases a)
  show ?case
  proof (cases "k' = k")
    case True
    with a show ?thesis by simp
  next
    case False
    with a Cons show ?thesis by auto
  qed
qed


lemma check_relationship_no_child:
  "db (child_table rel) = None \<Longrightarrow>
   check_relationship rel (res, db) =
     (validation_failed
        \<lparr>relationship_of = rel_name rel, child_records = 0, orphaned_records = 0,
         null_references = 0, valid = True, issues = []\<rparr>
        (res\<lparr>total_checks := total_checks res + 1\<rparr>), db)"
  by (simp add: check_relationship_def execute_count Let_def)

lemma check_relationship_no_parent:
  "db (child_table rel) = Some cs \<Longrightarrow> db (parent_table rel) = None \<Longrightarrow>
   check_relationship rel (res, db) =
     (validation_failed
        (if \<not> allow_null rel \<and> null_count cs (child_column rel) > 0
         then \<lparr>relationship_of = rel_name rel, child_records = length cs, orphaned_records = 0,
               null_references = null_count cs (child_column rel), valid = False,
               issues = [NullsInNonNullable (null_count cs (child_column rel))]\<rparr>
         else \<lparr>relationship_of = rel_name rel, child_records = length cs, orphaned_records = 0,
               null_references = null_count cs (child_column rel), valid = True, issues = []\<rparr>)
        (res\<lparr>total_checks := total_checks res + 1\<rparr>), db)"
  by (simp add: check_relationship_def execute_count execute_count_null
        execute_orphans_missing Let_def)

lemma check_relationship_both:
  assumes "db (child_table rel) = Some cs" "db (parent_table rel) = Some ps"
  shows "snd (check_relationship rel (res, db)) = db \<and>
     relationship_details (snd (fst (check_relationship rel (res, db)))) = relationship_details res \<and>
     total_checks (snd (fst (check_relationship rel (res, db)))) = total_checks res + 1 \<and>
     validation_error (snd (fst (check_relationship rel (res, db)))) = validation_error res \<and>
     fst (fst (check_relationship rel (res, db))) =
     \<lparr>relationship_of = rel_name rel, child_records = length cs,
      orphaned_records = anti_join_count cs ps (child_column rel) (parent_column rel),
      null_references = null_count cs (child_column rel),
      valid = (\<not> (\<not> allow_null rel \<and> null_count cs (child_column rel) > 0) \<and>
               \<not> anti_join_count cs ps (child_column rel) (parent_column rel) > 0),
      issues = (if \<not> allow_null rel \<and> null_count cs (child_column rel) > 0
                then [NullsInNonNullable (null_count cs (child_column rel))] else []) @
               (if anti_join_count cs ps (child_column rel) (parent_column rel) > 0
                then [OrphanedRecords (anti_join_count cs ps (child_column rel) (parent_column rel))]
                else [])\<rparr>"
  using assms
  by (simp add: check_relationship_def execute_count execute_count_null execute_orphans Let_def)

lemma check_relationship_shape:
  "snd (check_relationship rel (res, db)) = db \<and>
   relationship_details (snd (fst (check_relationship rel (res, db)))) = relationship_details res \<and>
   total_checks (snd (fst (check_relationship rel (res, db)))) = total_checks res + 1 \<and>
   validation_error (snd (fst (check_relationship rel (res, db)))) = validation_error res"
proof (cases "db (child_table rel)")
  case None
  then show ?thesis by (simp add: check_relationship_no_child validation_failed_def)
next
  case (Some cs)
  show ?thesis
  proof (cases "db (parent_table rel)")
    case None
    with Some show ?thesis by (simp add: check_relationship_no_parent validation_failed_def)
  next
    case (Some ps)
    with \<open>db (child_table rel) = Some cs\<close> check_relationship_both[of db rel cs ps res]
    show ?thesis by simp
  qed
qed

lemma check_relationship_keeps: "snd (check_relationship rel (res, db)) = db"
  using check_relationship_shape by blast


lemma validate_relationships_keeps:
  "snd (validate_relationships rels (res, db)) = db"
proof (induction rels arbitrary: res)
  case Nil
  then show ?case by simp
next
  case (Cons r rels)
  obtain rr res1 db1 where c: "check_relationship r (res, db) = ((rr, res1), db1)"
    by (cases "check_relationship r (res, db)") auto
  with check_relationship_keeps[of r res db] have "db1 = db" by simp
  with Cons.IH c show ?case by simp
qed

lemma validate_relationships_keys:
  "distinct (map rel_name rels) \<Longrightarrow>
   rel_name ` set rels \<inter> fst ` set (relationship_details res) = {} \<Longrightarrow>
   map fst (relationship_details (fst (validate_relationships rels (res, db)))) =
     map fst (relationship_details res) @ map rel_name rels \<and>
   total_checks (fst (validate_relationships rels (res, db))) = total_checks res + length rels"
proof (induction rels arbitrary: res)
  case Nil
  then show ?case by simp
next
  case (Cons r rels)
  obtain rr res1 db1 where c: "check_relationship r (res, db) = ((rr, res1), db1)"
    by (cases "check_relationship r (res, db)") auto
  with check_relationship_keeps[of r res db] have db1: "db1 = db" by simp
  from c check_relationship_shape[of r res db]
  have s: "relationship_details res1 = relationship_details res"
    "total_checks res1 = total_checks res + 1" by simp_all
  let ?res2 = "res1\<lparr>relationship_details := dict_set (rel_name r) rr (relationship_details res1)\<rparr>"
  from Cons.prems(2) have notin: "rel_name r \<notin> fst ` set (relationship_details res)" by auto
  then have k: "map fst (relationship_details ?res2) = map fst (relationship_details res) @ [rel_name r]"
    by (simp add: dict_set_keys s)
  from Cons.prems have d: "distinct (map rel_name rels)" by simp
  from Cons.prems k have dis: "rel_name ` set rels \<inter> fst ` set (relationship_details ?res2) = {}"
  proof -
    have "fst ` set (relationship_details ?res2) = set (map fst (relationship_details ?res2))" by simp
    also have "\<dots> = fst ` set (relationship_details res) \<union> {rel_name r}" unfolding k by auto
    finally show ?thesis using Cons.prems by auto
  qed
  have step: "validate_relationships (r # rels) (res, db) = validate_relationships rels (?res2, db)"
    using c db1 by simp
  from Cons.IH[OF d dis] k s show ?case unfolding step by simp
qed



lemma fk_relationship_names_distinct: "distinct (map rel_name fk_relationships)"
  by (simp add: fk_relationships_def)



text \<open>
  C7 (as amended). Neither integrity check changes the database: each only sends count
  queries. The validator, once its connection is open, stores exactly one result per
  declared relationship, in the order of the declarations, whatever the counts are and
  whether or not the queries of the relationship succeed. The integrity pass of the
  loader counts every relationship in \<open>checks_performed\<close> and, when its queries
  succeed, stores a detail exactly for the relationships whose orphaned count is not
  zero.
\<close>

theorem integrity_checks_record:
  "snd (validate_referential_integrity connected db) = db \<and>
   snd (loader_validate_referential_integrity connected db) = db \<and>
   map fst (relationship_details (fst (validate_referential_integrity True db))) =
     map rel_name fk_relationships \<and>
   total_checks (fst (validate_referential_integrity True db)) = length fk_relationships \<and>
   (list_all (\<lambda>(ct, cc, pt, pc). db ct \<noteq> None \<and> db pt \<noteq> None) relationships \<longrightarrow>
      details (fst (loader_validate_referential_integrity True db)) =
        expected_details db relationships \<and>
      checks_performed (fst (loader_validate_referential_integrity True db)) =
        length relationships)"
proof -
  have 1: "snd (validate_referential_integrity connected db) = db"
    by (simp add: validate_referential_integrity_def validate_relationships_keeps)
  have 2: "snd (loader_validate_referential_integrity connected db) = db"
    by (simp add: loader_validate_referential_integrity_def check_relationships_keeps)
  from validate_relationships_keys[OF fk_relationship_names_distinct,
      of initial_validation_results db]
  have 3: "map fst (relationship_details (fst (validate_referential_integrity True db))) =
     map rel_name fk_relationships"
    and 4: "total_checks (fst (validate_referential_integrity True db)) = length fk_relationships"
    by (simp_all add: validate_referential_integrity_def initial_validation_results_def)
  have 5: "list_all (\<lambda>(ct, cc, pt, pc). db ct \<noteq> None \<and> db pt \<noteq> None) relationships \<longrightarrow>
      details (fst (loader_validate_referential_integrity True db)) =
        expected_details db relationships \<and>
      checks_performed (fst (loader_validate_referential_integrity True db)) =
        length relationships"
  proof
    assume "list_all (\<lambda>(ct, cc, pt, pc). db ct \<noteq> None \<and> db pt \<noteq> None) relationships"
    from check_relationships_result[OF this, of initial_integrity_results]
    show "details (fst (loader_validate_referential_integrity True db)) =
        expected_details db relationships \<and>
      checks_performed (fst (loader_validate_referential_integrity True db)) =
        length relationships"
      by (simp add: loader_validate_referential_integrity_def initial_integrity_results_def)
  qed
  show ?thesis by (intro conjI) (rule 1, rule 2, rule 3, rule 4, rule 5)
qed

theorem integrity_checks_record_witness:
  "list_all (\<lambda>(ct, cc, pt, pc). sample_database ct \<noteq> None \<and> sample_database pt \<noteq> None)
     relationships \<and>
   details (fst (loader_validate_referential_integrity True sample_database)) =
     [(''encounters'', ''patient_id'', ''patients'', ''id'', 1)] \<and>
   checks_performed (fst (loader_validate_referential_integrity True sample_database)) = 10 \<and>
   map fst (relationship_details (fst (validate_referential_integrity True sample_database))) =
     [''providers_organization'', ''encounters_patient'', ''encounters_provider'',
      ''encounters_organization'', ''encounters_payer'', ''conditions_patient'',
      ''conditions_encounter'', ''medications_patient'', ''medications_encounter'',
      ''medications_payer'']"
proof -
  have h: "list_all (\<lambda>(ct, cc, pt, pc). sample_database ct \<noteq> None \<and> sample_database pt \<noteq> None)
     relationships"
    by (simp add: relationships_def sample_database_def)
  have e: "expected_details sample_database relationships =
     [(''encounters'', ''patient_id'', ''patients'', ''id'', 1)]"
    by code_simp
  have l: "length relationships = 10" by (simp add: relationships_def)
  have m: "map rel_name fk_relationships =
     [''providers_organization'', ''encounters_patient'', ''encounters_provider'',
      ''encounters_organization'', ''encounters_payer'', ''conditions_patient'',
      ''conditions_encounter'', ''medications_patient'', ''medications_encounter'',
      ''medications_payer'']"
    by (simp add: fk_relationships_def)
  note t = integrity_checks_record[where db = sample_database and connected = True]
  from t[THEN conjunct2, THEN conjunct2, THEN conjunct1] m
  have 1: "map fst (relationship_details (fst (validate_referential_integrity True sample_database))) =
     [''providers_organization'', ''encounters_patient'', ''encounters_provider'',
      ''encounters_organization'', ''encounters_payer'', ''conditions_patient'',
      ''conditions_encounter'', ''medications_patient'', ''medications_encounter'',
      ''medications_payer'']" by simp
  from t[THEN conjunct2, THEN conjunct2, THEN conjunct2, THEN conjunct2, THEN mp, OF h] e l
  have 2: "details (fst (loader_validate_referential_integrity True sample_database)) =
     [(''encounters'', ''patient_id'', ''patients'', ''id'', 1)]"
    "checks_performed (fst (loader_validate_referential_integrity True sample_database)) = 10"
    by simp_all
  from h 1 2 show ?thesis by blast
qed

text \<open>
  C7 as stated fails: on a database in which every relation is empty, so that every
  relationship is clean, the integrity pass of the loader checks its ten relationships and
  returns no detail at all; and a validator that cannot open its connection returns no
  result for any relationship.
\<close>

theorem clean_relationships_counterexample:
  "length relationships = 10 \<and>
   checks_performed (fst (loader_validate_referential_integrity True empty_database)) = 10 \<and>
   details (fst (loader_validate_referential_integrity True empty_database)) = [] \<and>
   relationship_details (fst (validate_referential_integrity False empty_database)) = []"
  by code_simp

end
